theory Spec2Isabelle
  imports Main
begin

section \<open>Values, requests and responses\<close>

text \<open>
  The scripts of the repository (\<^verbatim>\<open>src/bless.js\<close>, \<^verbatim>\<open>src/unnamed/part_000\<close>,
  \<^verbatim>\<open>src/unnamed/part_001\<close>) are three variants of one Node.js program.
  JavaScript values that the scripts handle are kept as a small datatype; \<open>JUndefined\<close> is
  what a missing array element or object property evaluates to.
\<close>

datatype jsval =
    JUndefined
  | JNull
  | JBool bool
  | JStr string
  | JObj "(string \<times> jsval) list"

text \<open>An \<^verbatim>\<open>Error\<close> object, identified by its \<^verbatim>\<open>message\<close>.\<close>

datatype error = Error string

fun message :: "error \<Rightarrow> string" where
  "message (Error m) = m"

text \<open>The second argument of \<^verbatim>\<open>fetch\<close> together with the URL.\<close>

record request =
  url :: string
  http_method :: "string option"
  headers :: "(string \<times> string) list"
  body :: "jsval option"
  timeout :: "nat option"

text \<open>
  What the scripts read of a response: \<^verbatim>\<open>ok\<close>, \<^verbatim>\<open>statusText\<close>, the parsed body
  (\<open>None\<close> when \<^verbatim>\<open>response.json()\<close> rejects because the body is not JSON), and what
  \<^verbatim>\<open>response.text()\<close> gives when it is called after \<^verbatim>\<open>json()\<close> has rejected (\<open>None\<close>
  when that call rejects as well, the body being used already).
\<close>

record response =
  ok :: bool
  statusText :: string
  json :: "jsval option"
  bodyText :: "string option"

text \<open>A call of \<^verbatim>\<open>fetch\<close> either rejects (connection failure, timeout) or resolves.\<close>

datatype outcome = Rejects error | Resolves response

section \<open>JavaScript helpers\<close>

text \<open>String conversion in a template literal, and truthiness.\<close>

fun to_string :: "jsval \<Rightarrow> string" where
  "to_string JUndefined = ''undefined''"
| "to_string JNull = ''null''"
| "to_string (JBool b) = (if b then ''true'' else ''false'')"
| "to_string (JStr s) = s"
| "to_string (JObj kvs) = ''[object Object]''"

fun truthy :: "jsval \<Rightarrow> bool" where
  "truthy JUndefined = False"
| "truthy JNull = False"
| "truthy (JBool b) = b"
| "truthy (JStr s) = (s \<noteq> [])"
| "truthy (JObj kvs) = True"

text \<open>
  Property access \<^verbatim>\<open>data.key\<close>: a \<^verbatim>\<open>TypeError\<close> on \<^verbatim>\<open>null\<close> and \<^verbatim>\<open>undefined\<close>,
  \<^verbatim>\<open>undefined\<close> for a key that is absent.
\<close>

fun get_prop :: "jsval \<Rightarrow> string \<Rightarrow> error + jsval" where
  "get_prop JUndefined k = Inl (Error (''Cannot read properties of undefined (reading '' @ k @ '')''))"
| "get_prop JNull k = Inl (Error (''Cannot read properties of null (reading '' @ k @ '')''))"
| "get_prop (JObj kvs) k = (case map_of kvs k of Some v \<Rightarrow> Inr v | None \<Rightarrow> Inr JUndefined)"
| "get_prop v k = Inr JUndefined"

text \<open>\<^verbatim>\<open>String.prototype.trim\<close>, on the ASCII white space and line terminators.\<close>

definition is_space :: "char \<Rightarrow> bool" where
  "is_space c = (c \<in> set [CHR 0x09, CHR 0x0A, CHR 0x0B, CHR 0x0C, CHR 0x0D, CHR 0x20])"

definition trim :: "string \<Rightarrow> string" where
  "trim s = rev (dropWhile is_space (rev (dropWhile is_space s)))"

text \<open>
  \<^verbatim>\<open>s.split(c)\<close> for a one-character separator: the pieces between the separators, at
  least one piece (the empty string splits into one empty piece).
\<close>

fun split_on :: "char \<Rightarrow> string \<Rightarrow> string list" where
  "split_on c [] = [[]]"
| "split_on c (x # xs) =
     (if x = c then [] # split_on c xs
      else (case split_on c xs of
              [] \<Rightarrow> [[x]]
            | y # ys \<Rightarrow> (x # y) # ys))"

text \<open>An array element read by destructuring: \<^verbatim>\<open>undefined\<close> past the end.\<close>

definition element :: "string list \<Rightarrow> nat \<Rightarrow> jsval" where
  "element xs i = (if i < length xs then JStr (xs ! i) else JUndefined)"

section \<open>\<^verbatim>\<open>isValidIP\<close> (the same in the three scripts)\<close>

text \<open>
  The regular expressions of the pattern: a character out of a class, sequence,
  alternative and the optional \<^verbatim>\<open>?\<close>. \<open>rmatch r s\<close> lists what is left of \<open>s\<close> after
  each way of matching \<open>r\<close> at its start, in the order a backtracking matcher tries them.
\<close>

datatype rexp =
    Cls "char list"
  | Seq rexp rexp
  | Alt rexp rexp
  | Opt rexp

fun rmatch :: "rexp \<Rightarrow> string \<Rightarrow> string list" where
  "rmatch (Cls cs) [] = []"
| "rmatch (Cls cs) (x # xs) = (if x \<in> set cs then [xs] else [])"
| "rmatch (Seq r1 r2) s = concat (map (rmatch r2) (rmatch r1 s))"
| "rmatch (Alt r1 r2) s = rmatch r1 s @ rmatch r2 s"
| "rmatch (Opt r) s = rmatch r s @ [s]"

text \<open>\<^verbatim>\<open>/^r$/.test(s)\<close>: some way of matching \<open>r\<close> uses up the whole string.\<close>

definition test :: "rexp \<Rightarrow> string \<Rightarrow> bool" where
  "test r s = ([] \<in> set (rmatch r s))"

definition digit09 :: rexp where "digit09 = Cls ''0123456789''"
definition digit05 :: rexp where "digit05 = Cls ''012345''"
definition digit04 :: rexp where "digit04 = Cls ''01234''"
definition digit01 :: rexp where "digit01 = Cls ''01''"
definition dot :: rexp where "dot = Cls ''.''"

text \<open>\<^verbatim>\<open>(25[0-5]|2[0-4][0-9]|[01]?[0-9][0-9]?)\<close>\<close>

definition octet :: rexp where
  "octet =
     Alt (Seq (Cls ''2'') (Seq (Cls ''5'') digit05))
       (Alt (Seq (Cls ''2'') (Seq digit04 digit09))
          (Seq (Opt digit01) (Seq digit09 (Opt digit09))))"

definition ipRegex :: rexp where
  "ipRegex = Seq octet (Seq dot (Seq octet (Seq dot (Seq octet (Seq dot octet)))))"

definition isValidIP :: "string \<Rightarrow> bool" where
  "isValidIP ip = test ipRegex ip"

section \<open>The world and the observable effects\<close>

text \<open>
  The sequential scripts are deterministic once the answers of the outside world are fixed:
  \<open>net w k\<close> is the outcome of the \<open>k\<close>-th call of \<^verbatim>\<open>fetch\<close>, \<open>userfile w k\<close> the
  content of \<^verbatim>\<open>user.txt\<close> at the \<open>k\<close>-th read (\<open>None\<close> when the read fails), and
  \<open>interfaces w\<close> what \<^verbatim>\<open>os.networkInterfaces()\<close> returns.
\<close>

record details =
  internal :: bool
  family :: string
  address :: string

record world =
  net :: "nat \<Rightarrow> outcome"
  userfile :: "nat \<Rightarrow> string option"
  interfaces :: "(string \<times> details list) list"

text \<open>
  The timer callbacks of the scripts, as data: the \<^verbatim>\<open>pingNode\<close> closures of part\_000
  and of bless.js (they capture \<^verbatim>\<open>nodeId\<close> and \<^verbatim>\<open>authToken\<close>) and the arrow function
  of part\_001's \<^verbatim>\<open>processNode\<close> (it captures \<^verbatim>\<open>nodeId\<close> and \<^verbatim>\<open>ipAddress\<close>).
\<close>

datatype callback = PingNode0 jsval string | Heartbeat1 jsval jsval | PingNodeB jsval string

text \<open>
  Observable effects, in program order. Log lines are kept without the ISO timestamp
  prefix; an object logged as a second argument is carried by \<open>ConsoleLogData\<close>.
\<close>

datatype event =
    Fetch request
  | ReadFile string
  | Prompt string
  | ConsoleLog string
  | ConsoleLogData string jsval
  | ConsoleError string
  | Sleep nat
  | SetInterval callback nat

record state =
  fetches :: nat
  reads :: nat
  trace :: "event list"

definition emit :: "event \<Rightarrow> state \<Rightarrow> state" where
  "emit e s = s\<lparr>trace := trace s @ [e]\<rparr>"

definition fetch :: "world \<Rightarrow> request \<Rightarrow> state \<Rightarrow> outcome \<times> state" where
  "fetch w rq s = (net w (fetches s), emit (Fetch rq) (s\<lparr>fetches := Suc (fetches s)\<rparr>))"

section \<open>The retrying request executor (part\_000, \<^verbatim>\<open>retryFetch\<close>)\<close>

text \<open>
  The body of the \<^verbatim>\<open>try\<close> block: one call of \<^verbatim>\<open>fetch\<close> with the 30 second timeout
  added to the options, and an \<^verbatim>\<open>Error\<close> thrown when the response is not \<^verbatim>\<open>ok\<close>.
\<close>

definition attempt :: "world \<Rightarrow> request \<Rightarrow> state \<Rightarrow> (error + response) \<times> state" where
  "attempt w rq s =
     (case fetch w (rq\<lparr>timeout := Some 30000\<rparr>) s of
        (Rejects e, s1) \<Rightarrow> (Inl e, s1)
      | (Resolves r, s1) \<Rightarrow>
          if \<not> ok r then (Inl (Error (''HTTP Error: '' @ statusText r)), s1)
          else (Inr r, s1))"

text \<open>
  The \<^verbatim>\<open>while (true)\<close> loop of \<^verbatim>\<open>retryFetch\<close>. It need not return, so the result is
  an option: \<open>None\<close> is the loop that runs forever.
\<close>

partial_function (option) retryFetch ::
  "world \<Rightarrow> request \<Rightarrow> bool \<Rightarrow> int \<Rightarrow> nat \<Rightarrow> state \<Rightarrow> ((error + response) \<times> state) option"
where
  "retryFetch w rq infiniteRetry retries delay s =
     (case attempt w rq s of
        (Inr r, s1) \<Rightarrow> Some (Inr r, s1)
      | (Inl e, s1) \<Rightarrow>
          if \<not> infiniteRetry \<and> retries = 0 then Some (Inl e, s1)
          else retryFetch w rq infiniteRetry
                 (if infiniteRetry then retries else retries - 1) delay
                 (emit (Sleep delay)
                   (emit (ConsoleError (''Retrying request to '' @ url rq
                            @ '' due to error: '' @ message e)) s1)))"

text \<open>The defaults of the parameter list: \<^verbatim>\<open>infiniteRetry = false, retries = 3, delay = 1000\<close>.\<close>

definition retryFetch2 :: "world \<Rightarrow> request \<Rightarrow> state \<Rightarrow> ((error + response) \<times> state) option" where
  "retryFetch2 w rq s = retryFetch w rq False 3 1000 s"

definition retryFetch3 :: "world \<Rightarrow> request \<Rightarrow> bool \<Rightarrow> state \<Rightarrow> ((error + response) \<times> state) option" where
  "retryFetch3 w rq infiniteRetry s = retryFetch w rq infiniteRetry 3 1000 s"

section \<open>Reading files, prompts and the local address\<close>

definition apiBaseUrl :: string where
  "apiBaseUrl = ''https://gateway-run.bls.dev/api/v1''"

definition ipServiceUrl :: string where
  "ipServiceUrl = ''https://tight-block-2413.txlabs.workers.dev''"

text \<open>The error with which \<^verbatim>\<open>response.json()\<close> rejects on a body that is not JSON.\<close>

definition json_error :: error where
  "json_error = Error ''invalid json response body''"

text \<open>\<^verbatim>\<open>fs.readFile('user.txt', 'utf-8')\<close>: the next content of the file, or a rejection.\<close>

definition readUserFile :: "world \<Rightarrow> state \<Rightarrow> (error + string) \<times> state" where
  "readUserFile w s =
     (let s1 = emit (ReadFile ''user.txt'') (s\<lparr>reads := Suc (reads s)\<rparr>) in
      case userfile w (reads s) of
        None \<Rightarrow> (Inl (Error ''ENOENT: no such file or directory, open user.txt''), s1)
      | Some content \<Rightarrow> (Inr content, s1))"

text \<open>
  \<^verbatim>\<open>promptInput\<close>: the question is written, and the next line typed is returned trimmed.
  With no line left the promise never resolves.
\<close>

definition promptInput ::
  "string \<Rightarrow> string list \<Rightarrow> state \<Rightarrow> (string \<times> string list \<times> state) option" where
  "promptInput promptMessage answers s =
     (case answers of
        [] \<Rightarrow> None
      | answer # rest \<Rightarrow> Some (trim answer, rest, emit (Prompt promptMessage) s))"

text \<open>\<^verbatim>\<open>getLocalIpAddress\<close>: the first address that is not internal and is IPv4.\<close>

fun first_external :: "details list \<Rightarrow> string option" where
  "first_external [] = None"
| "first_external (d # ds) =
     (if \<not> internal d \<and> family d = ''IPv4'' then Some (address d) else first_external ds)"

fun scan_interfaces :: "(string \<times> details list) list \<Rightarrow> string" where
  "scan_interfaces [] = ''127.0.0.1''"
| "scan_interfaces ((name, ds) # rest) =
     (case first_external ds of Some a \<Rightarrow> a | None \<Rightarrow> scan_interfaces rest)"

definition getLocalIpAddress :: "world \<Rightarrow> string" where
  "getLocalIpAddress w = scan_interfaces (interfaces w)"

section \<open>\<^verbatim>\<open>fetchIpAddress\<close> (part\_000)\<close>

text \<open>
  \<^verbatim>\<open>retryFetch(ipServiceUrl, {}, true).then(response => response.json()).then(data => data.ip)\<close>
\<close>

definition service_ip :: "world \<Rightarrow> state \<Rightarrow> ((error + jsval) \<times> state) option" where
  "service_ip w s =
     (case retryFetch3 w \<lparr>url = ipServiceUrl, http_method = None, headers = [], body = None,
                           timeout = None\<rparr> True s of
        None \<Rightarrow> None
      | Some (Inl e, s1) \<Rightarrow> Some (Inl e, s1)
      | Some (Inr r, s1) \<Rightarrow>
          (case json r of
             None \<Rightarrow> Some (Inl json_error, s1)
           | Some data \<Rightarrow>
               (case get_prop data ''ip'' of
                  Inl e \<Rightarrow> Some (Inl e, s1)
                | Inr ip \<Rightarrow> Some (Inr ip, s1))))"

text \<open>The two statements after the \<^verbatim>\<open>switch\<close>.\<close>

definition using_ip :: "jsval \<Rightarrow> string list \<Rightarrow> state \<Rightarrow> (error + jsval) \<times> string list \<times> state" where
  "using_ip ipAddress rest s =
     (Inr ipAddress, rest, emit (ConsoleLog (''Using IP address: '' @ to_string ipAddress)) s)"

definition from_service ::
  "world \<Rightarrow> string list \<Rightarrow> state \<Rightarrow> ((error + jsval) \<times> string list \<times> state) option" where
  "from_service w rest s =
     (case service_ip w s of
        None \<Rightarrow> None
      | Some (Inl e, s1) \<Rightarrow> Some (Inl e, rest, s1)
      | Some (Inr ip, s1) \<Rightarrow> Some (using_ip ip rest s1))"

definition choice_prompt :: string where
  "choice_prompt = ''Choose IP option: (1) Manual, (2) Fetch from Service, (3) Local network IP (1/2/3): ''"

text \<open>
  \<open>answers\<close> are the lines typed at the prompts, in order; the result carries the lines
  not yet read. \<open>None\<close>: the call does not return (it waits for a line, or retries the
  address service without end).
\<close>

function fetchIpAddress ::
  "world \<Rightarrow> string list \<Rightarrow> state \<Rightarrow> ((error + jsval) \<times> string list \<times> state) option" where
  "fetchIpAddress w answers s =
     (case promptInput choice_prompt answers s of
        None \<Rightarrow> None
      | Some (choice, rest, s1) \<Rightarrow>
          if choice = ''1'' then
            (case promptInput ''Enter your IP address: '' rest s1 of
               None \<Rightarrow> None
             | Some (ipAddress, rest2, s2) \<Rightarrow>
                 if \<not> isValidIP ipAddress
                 then fetchIpAddress w rest2
                        (emit (ConsoleError ''Invalid IP address. Please try again.'') s2)
                 else Some (using_ip (JStr ipAddress) rest2 s2))
          else if choice = ''2'' then from_service w rest s1
          else if choice = ''3'' then Some (using_ip (JStr (getLocalIpAddress w)) rest s1)
          else from_service w rest
                 (emit (ConsoleError ''Invalid choice. Defaulting to external IP service.'') s1))"
  by pat_completeness auto
termination
  by (relation "measure (\<lambda>(w, answers, s). length answers)")
     (auto simp: promptInput_def split: list.splits)

section \<open>The node lifecycle of part\_000 (\<^verbatim>\<open>runAll\<close>)\<close>

definition register_rq :: "jsval \<Rightarrow> jsval \<Rightarrow> jsval \<Rightarrow> string \<Rightarrow> request" where
  "register_rq nodeId hardwareId ipAddress authToken =
     \<lparr>url = apiBaseUrl @ ''/nodes/'' @ to_string nodeId,
      http_method = Some ''POST'',
      headers = [(''Content-Type'', ''application/json''),
                 (''Authorization'', ''Bearer '' @ authToken)],
      body = Some (JObj [(''ipAddress'', ipAddress), (''hardwareId'', hardwareId)]),
      timeout = None\<rparr>"

definition session_rq :: "jsval \<Rightarrow> string \<Rightarrow> request" where
  "session_rq nodeId authToken =
     \<lparr>url = apiBaseUrl @ ''/nodes/'' @ to_string nodeId @ ''/start-session'',
      http_method = Some ''POST'',
      headers = [(''Authorization'', ''Bearer '' @ authToken)],
      body = None, timeout = None\<rparr>"

definition ping_rq :: "jsval \<Rightarrow> string \<Rightarrow> request" where
  "ping_rq nodeId authToken =
     \<lparr>url = apiBaseUrl @ ''/nodes/'' @ to_string nodeId @ ''/ping'',
      http_method = Some ''POST'',
      headers = [(''Authorization'', ''Bearer '' @ authToken)],
      body = None, timeout = None\<rparr>"

text \<open>
  The \<^verbatim>\<open>pingNode\<close> closure of part\_000: \<^verbatim>\<open>retryFetch\<close> with two arguments, so the
  defaults \<^verbatim>\<open>infiniteRetry = false\<close> and \<^verbatim>\<open>retries = 3\<close> apply.
\<close>

definition pingNode0 :: "world \<Rightarrow> jsval \<Rightarrow> string \<Rightarrow> state \<Rightarrow> ((error + unit) \<times> state) option" where
  "pingNode0 w nodeId authToken s =
     (case retryFetch2 w (ping_rq nodeId authToken) s of
        None \<Rightarrow> None
      | Some (Inl e, s1) \<Rightarrow> Some (Inl e, s1)
      | Some (Inr pingResponse, s1) \<Rightarrow>
          (case json pingResponse of
             None \<Rightarrow> Some (Inl json_error, s1)
           | Some pingData \<Rightarrow>
               (let s2 = emit (ConsoleLogData (''Ping response for '' @ to_string nodeId @ '':'')
                                 pingData) s1 in
                case get_prop pingData ''isB7SConnected'' of
                  Inl e \<Rightarrow> Some (Inl e, s2)
                | Inr connected \<Rightarrow>
                    Some (Inr (),
                      if truthy connected
                      then emit (ConsoleLog (''Node '' @ to_string nodeId
                                   @ '' is now connected to B7S.'')) s2
                      else s2))))"

text \<open>The body of the \<^verbatim>\<open>try\<close> block, up to the \<^verbatim>\<open>break\<close>.\<close>

definition onboard0 ::
  "world \<Rightarrow> jsval \<Rightarrow> jsval \<Rightarrow> jsval \<Rightarrow> state \<Rightarrow> ((error + unit) \<times> state) option" where
  "onboard0 w nodeId hardwareId ipAddress s =
     (case readUserFile w s of
        (Inl e, s1) \<Rightarrow> Some (Inl e, s1)
      | (Inr content, s1) \<Rightarrow>
          (let authToken = trim content in
           case retryFetch3 w (register_rq nodeId hardwareId ipAddress authToken) True s1 of
             None \<Rightarrow> None
           | Some (Inl e, s2) \<Rightarrow> Some (Inl e, s2)
           | Some (Inr regResponse, s2) \<Rightarrow>
               (case json regResponse of
                  None \<Rightarrow> Some (Inl json_error, s2)
                | Some regData \<Rightarrow>
                    (case retryFetch3 w (session_rq nodeId authToken) True
                            (emit (ConsoleLogData (''Registration response for ''
                                     @ to_string nodeId @ '':'') regData) s2) of
                       None \<Rightarrow> None
                     | Some (Inl e, s3) \<Rightarrow> Some (Inl e, s3)
                     | Some (Inr sessionResponse, s3) \<Rightarrow>
                         (case json sessionResponse of
                            None \<Rightarrow> Some (Inl json_error, s3)
                          | Some sessionData \<Rightarrow>
                              (case pingNode0 w nodeId authToken
                                      (emit (ConsoleLogData (''Session started for ''
                                               @ to_string nodeId @ '':'') sessionData) s3) of
                                 None \<Rightarrow> None
                               | Some (Inl e, s4) \<Rightarrow> Some (Inl e, s4)
                               | Some (Inr u, s4) \<Rightarrow>
                                   Some (Inr (),
                                     emit (SetInterval (PingNode0 nodeId authToken) 60000) s4)))))))"

text \<open>
  The \<^verbatim>\<open>while (true)\<close> around the \<^verbatim>\<open>try\<close>: left by \<^verbatim>\<open>break\<close> once the timer is set; the
  \<^verbatim>\<open>catch\<close> logs, waits five seconds and goes round again.
\<close>

partial_function (option) lifecycle0 ::
  "world \<Rightarrow> jsval \<Rightarrow> jsval \<Rightarrow> jsval \<Rightarrow> state \<Rightarrow> state option" where
  "lifecycle0 w nodeId hardwareId ipAddress s =
     (case onboard0 w nodeId hardwareId ipAddress s of
        None \<Rightarrow> None
      | Some (Inr u, s1) \<Rightarrow> Some s1
      | Some (Inl e, s1) \<Rightarrow>
          lifecycle0 w nodeId hardwareId ipAddress
            (emit (Sleep 5000)
               (emit (ConsoleError (''Error processing node '' @ to_string nodeId
                        @ ''. Retrying: '' @ message e)) s1)))"

text \<open>
  The identifiers: \<^verbatim>\<open>idsContent.trim().split('\n')\<close>, each line split on \<^verbatim>\<open>':'\<close> and its
  first two pieces taken (part\_000 and bless.js).
\<close>

definition parse_line :: "string \<Rightarrow> jsval \<times> jsval" where
  "parse_line line = (let parts = split_on CHR '':'' line in (element parts 0, element parts 1))"

definition parse_ids :: "string \<Rightarrow> (jsval \<times> jsval) list" where
  "parse_ids idsContent = map parse_line (split_on CHR 0x0A (trim idsContent))"

definition invalid_entry :: "jsval \<Rightarrow> jsval \<Rightarrow> event" where
  "invalid_entry nodeId hardwareId =
     ConsoleError (''Invalid ID entry: nodeId='' @ to_string nodeId
                   @ '', hardwareId='' @ to_string hardwareId)"

text \<open>The \<^verbatim>\<open>for\<close> loop of part\_000: each lifecycle is awaited before the next entry.\<close>

fun forNodes0 :: "world \<Rightarrow> jsval \<Rightarrow> (jsval \<times> jsval) list \<Rightarrow> state \<Rightarrow> state option" where
  "forNodes0 w ipAddress [] s = Some s"
| "forNodes0 w ipAddress ((nodeId, hardwareId) # rest) s =
     (if \<not> truthy nodeId \<or> \<not> truthy hardwareId
      then forNodes0 w ipAddress rest (emit (invalid_entry nodeId hardwareId) s)
      else (case lifecycle0 w nodeId hardwareId ipAddress s of
              None \<Rightarrow> None
            | Some s1 \<Rightarrow> forNodes0 w ipAddress rest s1))"

text \<open>
  \<^verbatim>\<open>runAll\<close> of part\_000 from the content of \<^verbatim>\<open>id.txt\<close> on; \<^verbatim>\<open>setupFiles\<close>, which
  only creates missing files, comes before. A rejection of \<^verbatim>\<open>fetchIpAddress\<close> ends the run.
\<close>

definition runAll0 ::
  "world \<Rightarrow> string \<Rightarrow> string list \<Rightarrow> state \<Rightarrow> ((error + unit) \<times> state) option" where
  "runAll0 w idsContent answers s =
     (case fetchIpAddress w answers s of
        None \<Rightarrow> None
      | Some (Inl e, rest, s1) \<Rightarrow> Some (Inl e, s1)
      | Some (Inr ipAddress, rest, s1) \<Rightarrow>
          (case forNodes0 w ipAddress (parse_ids idsContent) s1 of
             None \<Rightarrow> None
           | Some s2 \<Rightarrow> Some (Inr (), s2)))"

section \<open>bless.js: one attempt per node, no retry\<close>

definition pingNodeB :: "world \<Rightarrow> jsval \<Rightarrow> string \<Rightarrow> state \<Rightarrow> (error + unit) \<times> state" where
  "pingNodeB w nodeId authToken s =
     (case fetch w (ping_rq nodeId authToken) s of
        (Rejects e, s1) \<Rightarrow> (Inl e, s1)
      | (Resolves pingResponse, s1) \<Rightarrow>
          (case json pingResponse of
             None \<Rightarrow> (Inl json_error, s1)
           | Some pingData \<Rightarrow>
               (let s2 = emit (ConsoleLogData (''Ping response for '' @ to_string nodeId @ '':'')
                                 pingData) s1 in
                case get_prop pingData ''isB7SConnected'' of
                  Inl e \<Rightarrow> (Inl e, s2)
                | Inr connected \<Rightarrow>
                    (Inr (),
                     if truthy connected
                     then emit (ConsoleLog (''Node '' @ to_string nodeId
                                  @ '' is now connected to B7S.'')) s2
                     else emit (ConsoleLog (''Node '' @ to_string nodeId
                                  @ '' is NOT connected to B7S.'')) s2))))"

definition onboardB ::
  "world \<Rightarrow> jsval \<Rightarrow> jsval \<Rightarrow> jsval \<Rightarrow> state \<Rightarrow> (error + unit) \<times> state" where
  "onboardB w nodeId hardwareId ipAddress s =
     (case readUserFile w s of
        (Inl e, s1) \<Rightarrow> (Inl e, s1)
      | (Inr content, s1) \<Rightarrow>
          (let authToken = trim content in
           case fetch w (register_rq nodeId hardwareId ipAddress authToken) s1 of
             (Rejects e, s2) \<Rightarrow> (Inl e, s2)
           | (Resolves regResponse, s2) \<Rightarrow>
               (case json regResponse of
                  None \<Rightarrow> (Inl json_error, s2)
                | Some regData \<Rightarrow>
                    (case fetch w (session_rq nodeId authToken)
                            (emit (ConsoleLogData (''Registration response for ''
                                     @ to_string nodeId @ '':'') regData) s2) of
                       (Rejects e, s3) \<Rightarrow> (Inl e, s3)
                     | (Resolves sessionResponse, s3) \<Rightarrow>
                         (case json sessionResponse of
                            None \<Rightarrow> (Inl json_error, s3)
                          | Some sessionData \<Rightarrow>
                              (case pingNodeB w nodeId authToken
                                      (emit (ConsoleLogData (''Session started for ''
                                               @ to_string nodeId @ '':'') sessionData) s3) of
                                 (Inl e, s4) \<Rightarrow> (Inl e, s4)
                               | (Inr u, s4) \<Rightarrow>
                                   (Inr (),
                                    emit (SetInterval (PingNodeB nodeId authToken) 60000) s4)))))))"

text \<open>The \<^verbatim>\<open>for\<close> loop of bless.js: the \<^verbatim>\<open>catch\<close> logs and the loop goes on.\<close>

fun forNodesB :: "world \<Rightarrow> jsval \<Rightarrow> (jsval \<times> jsval) list \<Rightarrow> state \<Rightarrow> state" where
  "forNodesB w ipAddress [] s = s"
| "forNodesB w ipAddress ((nodeId, hardwareId) # rest) s =
     (if \<not> truthy nodeId \<or> \<not> truthy hardwareId
      then forNodesB w ipAddress rest (emit (invalid_entry nodeId hardwareId) s)
      else (case onboardB w nodeId hardwareId ipAddress s of
              (Inr u, s1) \<Rightarrow> forNodesB w ipAddress rest s1
            | (Inl e, s1) \<Rightarrow>
                forNodesB w ipAddress rest
                  (emit (ConsoleError (''Error processing node '' @ to_string nodeId
                           @ '': '' @ message e)) s1)))"

section \<open>part\_001: one concurrent lifecycle per node\<close>

definition readAuthToken :: "world \<Rightarrow> state \<Rightarrow> (error + string) \<times> state" where
  "readAuthToken w s =
     (case readUserFile w s of
        (Inl e, s1) \<Rightarrow> (Inl e, s1)
      | (Inr data, s1) \<Rightarrow> (Inr (trim data), s1))"

text \<open>The error of \<^verbatim>\<open>response.text()\<close> on a body that was read already.\<close>

definition body_used :: error where
  "body_used = Error ''body used already''"

definition registerNode ::
  "world \<Rightarrow> jsval \<Rightarrow> jsval \<Rightarrow> jsval \<Rightarrow> state \<Rightarrow> (error + jsval) \<times> state" where
  "registerNode w nodeId hardwareId ipAddress s =
     (case readAuthToken w s of
        (Inl e, s1) \<Rightarrow> (Inl e, s1)
      | (Inr authToken, s1) \<Rightarrow>
          (case fetch w (register_rq nodeId hardwareId ipAddress authToken)
                  (emit (ConsoleLog (''Registering node with IP: '' @ to_string ipAddress
                           @ '', Hardware ID: '' @ to_string hardwareId)) s1) of
             (Rejects e, s2) \<Rightarrow> (Inl e, s2)
           | (Resolves response, s2) \<Rightarrow>
               (case json response of
                  None \<Rightarrow>
                    (case bodyText response of
                       None \<Rightarrow> (Inl body_used, s2)
                     | Some txt \<Rightarrow>
                         (Inl json_error,
                          emit (ConsoleError (''Failed to parse JSON. Response text: '' @ txt)) s2))
                | Some data \<Rightarrow>
                    (Inr data, emit (ConsoleLogData ''Registration response:'' data) s2))))"

definition startSession :: "world \<Rightarrow> jsval \<Rightarrow> state \<Rightarrow> (error + jsval) \<times> state" where
  "startSession w nodeId s =
     (case readAuthToken w s of
        (Inl e, s1) \<Rightarrow> (Inl e, s1)
      | (Inr authToken, s1) \<Rightarrow>
          (case fetch w (session_rq nodeId authToken)
                  (emit (ConsoleLog (''Starting session for node '' @ to_string nodeId
                           @ '', it might take a while...'')) s1) of
             (Rejects e, s2) \<Rightarrow> (Inl e, s2)
           | (Resolves response, s2) \<Rightarrow>
               (case json response of
                  None \<Rightarrow> (Inl json_error, s2)
                | Some data \<Rightarrow>
                    (Inr data, emit (ConsoleLogData ''Start session response:'' data) s2))))"

text \<open>\<^verbatim>\<open>pingNode\<close> of part\_001: one bare \<^verbatim>\<open>fetch\<close>; the colours of the log line are left out.\<close>

definition pingNode1 :: "world \<Rightarrow> jsval \<Rightarrow> jsval \<Rightarrow> state \<Rightarrow> (error + jsval) \<times> state" where
  "pingNode1 w nodeId ipAddress s =
     (case readAuthToken w s of
        (Inl e, s1) \<Rightarrow> (Inl e, s1)
      | (Inr authToken, s1) \<Rightarrow>
          (case fetch w (ping_rq nodeId authToken)
                  (emit (ConsoleLog (''Pinging node '' @ to_string nodeId @ '' with IP: ''
                           @ to_string ipAddress)) s1) of
             (Rejects e, s2) \<Rightarrow> (Inl e, s2)
           | (Resolves response, s2) \<Rightarrow>
               (case json response of
                  None \<Rightarrow> (Inl json_error, s2)
                | Some data \<Rightarrow>
                    (case get_prop data ''status'' of
                       Inl e \<Rightarrow> (Inl e, s2)
                     | Inr status \<Rightarrow>
                         (Inr data,
                          emit (ConsoleLog (''Ping response, NodeID: '' @ to_string nodeId
                                  @ '', Status: '' @ to_string status
                                  @ '', IP: '' @ to_string ipAddress)) s2)))))"

text \<open>
  \<^verbatim>\<open>processNode\<close> is an asynchronous function that \<^verbatim>\<open>runAll\<close> calls without awaiting it.
  Its loop is cut at the three calls it awaits: a task records which call comes next, and
  one step runs that call to its end. A task has its own world (the answers to the node's
  own calls, in their order) and its own state.
\<close>

datatype stage = Registering | StartingSession | InitialPing | Heartbeating

record task =
  nodeId :: jsval
  hardwareId :: jsval
  ipAddress :: jsval
  stage :: stage
  st :: state

definition processing_line :: "jsval \<Rightarrow> jsval \<Rightarrow> jsval \<Rightarrow> event" where
  "processing_line n h ip =
     ConsoleLog (''Processing nodeId: '' @ to_string n @ '', hardwareId: '' @ to_string h
                 @ '', IP: '' @ to_string ip)"

text \<open>The \<^verbatim>\<open>catch\<close> of \<^verbatim>\<open>processNode\<close>: it logs, and the loop starts again at once.\<close>

definition restart :: "task \<Rightarrow> error \<Rightarrow> state \<Rightarrow> task" where
  "restart t e s =
     t\<lparr>stage := Registering,
       st := emit (processing_line (nodeId t) (hardwareId t) (ipAddress t))
               (emit (ConsoleError (''Error occurred for nodeId: '' @ to_string (nodeId t)
                        @ '', restarting process: '' @ message e)) s)\<rparr>"

definition processNode_start :: "jsval \<Rightarrow> jsval \<Rightarrow> jsval \<Rightarrow> task" where
  "processNode_start n h ip =
     \<lparr>nodeId = n, hardwareId = h, ipAddress = ip, stage = Registering,
      st = \<lparr>fetches = 0, reads = 0, trace = [processing_line n h ip]\<rparr>\<rparr>"

definition processNode_step :: "world \<Rightarrow> task \<Rightarrow> task" where
  "processNode_step w t =
     (case stage t of
        Registering \<Rightarrow>
          (case registerNode w (nodeId t) (hardwareId t) (ipAddress t) (st t) of
             (Inl e, s1) \<Rightarrow> restart t e s1
           | (Inr registrationResponse, s1) \<Rightarrow>
               t\<lparr>stage := StartingSession,
                 st := emit (ConsoleLogData (''Node registration completed for nodeId: ''
                               @ to_string (nodeId t) @ ''. Response:'')
                               registrationResponse) s1\<rparr>)
      | StartingSession \<Rightarrow>
          (case startSession w (nodeId t) (st t) of
             (Inl e, s1) \<Rightarrow> restart t e s1
           | (Inr startSessionResponse, s1) \<Rightarrow>
               t\<lparr>stage := InitialPing,
                 st := emit (ConsoleLog (''Sending initial ping for nodeId: ''
                               @ to_string (nodeId t)))
                         (emit (ConsoleLogData (''Session started for nodeId: ''
                                  @ to_string (nodeId t) @ ''. Response:'')
                                  startSessionResponse) s1)\<rparr>)
      | InitialPing \<Rightarrow>
          (case pingNode1 w (nodeId t) (ipAddress t) (st t) of
             (Inl e, s1) \<Rightarrow> restart t e s1
           | (Inr data, s1) \<Rightarrow>
               t\<lparr>stage := Heartbeating,
                 st := emit (SetInterval (Heartbeat1 (nodeId t) (ipAddress t)) 60000) s1\<rparr>)
      | Heartbeating \<Rightarrow> t)"

text \<open>The callback given to \<^verbatim>\<open>setInterval\<close> in \<^verbatim>\<open>processNode\<close>: it logs and throws again.\<close>

definition heartbeat1 :: "world \<Rightarrow> jsval \<Rightarrow> jsval \<Rightarrow> state \<Rightarrow> (error + unit) \<times> state" where
  "heartbeat1 w n ip s =
     (case pingNode1 w n ip (emit (ConsoleLog (''Sending ping for nodeId: '' @ to_string n)) s) of
        (Inr data, s1) \<Rightarrow> (Inr (), s1)
      | (Inl e, s1) \<Rightarrow> (Inl e, emit (ConsoleError (''Error during ping: '' @ message e)) s1))"

text \<open>
  \<^verbatim>\<open>readNodeAndHardwareIds\<close>: as \<open>parse_ids\<close>, with the empty lines dropped first.
\<close>

definition readNodeAndHardwareIds :: "string \<Rightarrow> (jsval \<times> jsval) list" where
  "readNodeAndHardwareIds data =
     map parse_line (filter (\<lambda>id. id \<noteq> []) (split_on CHR 0x0A (trim data)))"

text \<open>
  The \<^verbatim>\<open>for\<close> loop of part\_001's \<^verbatim>\<open>runAll\<close>: every entry gets its \<^verbatim>\<open>processNode\<close>
  call, none is awaited. The result is the pool of started tasks.
\<close>

definition runAll1 :: "string \<Rightarrow> jsval \<Rightarrow> task list" where
  "runAll1 data ip = map (\<lambda>(n, h). processNode_start n h ip) (readNodeAndHardwareIds data)"

section \<open>part\_001: asking for the address, and the handler of uncaught exceptions\<close>

definition option_prompt :: string where
  "option_prompt = ''Would you like to (1) Enter your IP address manually, (2) Fetch IP from service, or (3) Use local network IP? (1/2/3): ''"

text \<open>
  The two branches of part\_001's \<^verbatim>\<open>fetchIpAddress\<close> that ask the address service: one
  bare \<^verbatim>\<open>fetch\<close>, the body parsed and its \<^verbatim>\<open>ip\<close> taken; the branch of option 2 also logs
  the body.
\<close>

definition service_ip1 ::
  "bool \<Rightarrow> world \<Rightarrow> string list \<Rightarrow> state \<Rightarrow> (error + jsval) \<times> string list \<times> state" where
  "service_ip1 logged w rest s =
     (case fetch w \<lparr>url = ipServiceUrl, http_method = None, headers = [], body = None,
                    timeout = None\<rparr> s of
        (Rejects e, s1) \<Rightarrow> (Inl e, rest, s1)
      | (Resolves response, s1) \<Rightarrow>
          (case json response of
             None \<Rightarrow> (Inl json_error, rest, s1)
           | Some data \<Rightarrow>
               (let s2 = (if logged then emit (ConsoleLogData ''IP fetch response:'' data) s1
                          else s1) in
                case get_prop data ''ip'' of
                  Inl e \<Rightarrow> (Inl e, rest, s2)
                | Inr ip \<Rightarrow> (Inr ip, rest, s2))))"

function fetchIpAddress1 ::
  "world \<Rightarrow> string list \<Rightarrow> state \<Rightarrow> ((error + jsval) \<times> string list \<times> state) option" where
  "fetchIpAddress1 w answers s =
     (case promptInput option_prompt answers s of
        None \<Rightarrow> None
      | Some (chosen, rest, s1) \<Rightarrow>
          if chosen = ''1'' then
            (case promptInput ''Please enter your IP address: '' rest s1 of
               None \<Rightarrow> None
             | Some (entered, rest2, s2) \<Rightarrow>
                 if \<not> isValidIP entered
                 then fetchIpAddress1 w rest2
                        (emit (ConsoleLog ''Invalid IP address format. Please enter a valid IPv4 address.'') s2)
                 else Some (Inr (JStr entered), rest2, s2))
          else if chosen = ''2'' then Some (service_ip1 True w rest s1)
          else if chosen = ''3'' then
            Some (Inr (JStr (getLocalIpAddress w)), rest,
                  emit (ConsoleLogData ''Local network IP:'' (JStr (getLocalIpAddress w))) s1)
          else Some (service_ip1 False w rest
                 (emit (ConsoleLog ''Invalid option. Defaulting to fetching IP from the external service.'') s1)))"
  by pat_completeness auto
termination
  by (relation "measure (\<lambda>(w, answers, s). length answers)")
     (auto simp: promptInput_def split: list.splits)

text \<open>
  \<^verbatim>\<open>runAll(false)\<close>: the identifiers are read again (\<open>idfile\<close> is the content of
  \<^verbatim>\<open>id.txt\<close>, \<open>None\<close> when it cannot be read), the address is asked for again, and
  \<^verbatim>\<open>processNode\<close> is called for every entry; an error on the way is caught and logged.
\<close>

definition runAllFalse ::
  "world \<Rightarrow> string option \<Rightarrow> string list \<Rightarrow> state \<Rightarrow> (task list \<times> state) option" where
  "runAllFalse w idfile answers s =
     (case idfile of
        None \<Rightarrow>
          Some ([], emit (ConsoleError
                  ''An error occurred: ENOENT: no such file or directory, open id.txt'') s)
      | Some data \<Rightarrow>
          (case fetchIpAddress1 w answers s of
             None \<Rightarrow> None
           | Some (Inl error, rest, s1) \<Rightarrow>
               Some ([], emit (ConsoleError (''An error occurred: '' @ message error)) s1)
           | Some (Inr ip, rest, s1) \<Rightarrow> Some (runAll1 data ip, s1)))"

text \<open>\<^verbatim>\<open>process.on('uncaughtException', ...)\<close>: the error is logged and \<^verbatim>\<open>runAll(false)\<close> is called.\<close>

definition uncaughtException ::
  "world \<Rightarrow> string option \<Rightarrow> string list \<Rightarrow> error \<Rightarrow> state \<Rightarrow> (task list \<times> state) option" where
  "uncaughtException w idfile answers error s =
     runAllFalse w idfile answers (emit (ConsoleError (''Uncaught exception: '' @ message error)) s)"

text \<open>
  A firing of the timer of part\_001. Nothing awaits or catches the promise of the callback;
  when it rejects, Node raises the rejection as an uncaught exception (its default since
  version 15), which part\_001 handles as above. The result is the tasks that the handler
  starts (none when the firing succeeds) and the state after it.
\<close>

definition timer_fires1 ::
  "world \<Rightarrow> string option \<Rightarrow> string list \<Rightarrow> jsval \<Rightarrow> jsval \<Rightarrow> state \<Rightarrow> (task list \<times> state) option" where
  "timer_fires1 w idfile answers n ip s =
     (case heartbeat1 w n ip s of
        (Inr u, s1) \<Rightarrow> Some ([], s1)
      | (Inl e, s1) \<Rightarrow> uncaughtException w idfile answers e s1)"

section \<open>Dotted quads, as the specification words them\<close>

definition is_digit :: "char \<Rightarrow> bool" where
  "is_digit c = (c \<in> set ''0123456789'')"

definition digit_value :: "char \<Rightarrow> nat" where
  "digit_value c = of_char c - 48"

definition decimal :: "string \<Rightarrow> nat" where
  "decimal p = foldl (\<lambda>n c. 10 * n + digit_value c) 0 p"

text \<open>
  The validity of an address in the words of the specification, to compare \<open>isValidIP\<close>
  with: a dotted quad is four octets separated by dots, an octet is one to three
  decimal digits whose value is between 0 and 255.
\<close>

definition spec_octet :: "string \<Rightarrow> bool" where
  "spec_octet p = (p \<noteq> [] \<and> length p \<le> 3 \<and> list_all is_digit p \<and> decimal p \<le> 255)"

definition spec_dotted_quad :: "string \<Rightarrow> bool" where
  "spec_dotted_quad s =
     (case split_on CHR ''.'' s of
        [a, b, c, d] \<Rightarrow> spec_octet a \<and> spec_octet b \<and> spec_octet c \<and> spec_octet d
      | _ \<Rightarrow> False)"

text \<open>The strings a regular expression matches in full.\<close>

fun lang :: "rexp \<Rightarrow> string set" where
  "lang (Cls cs) = {[c] | c. c \<in> set cs}"
| "lang (Seq r1 r2) = {u @ v | u v. u \<in> lang r1 \<and> v \<in> lang r2}"
| "lang (Alt r1 r2) = lang r1 \<union> lang r2"
| "lang (Opt r) = insert [] (lang r)"

section \<open>Vocabulary of the statements\<close>

text \<open>
  The error that the \<^verbatim>\<open>try\<close> block of \<^verbatim>\<open>retryFetch\<close> throws on an outcome of
  \<^verbatim>\<open>fetch\<close>: the rejection itself (a network error), or the HTTP error made from a
  response that is not \<^verbatim>\<open>ok\<close>; \<open>None\<close> when the attempt succeeds.
\<close>

fun failure :: "outcome \<Rightarrow> error option" where
  "failure (Rejects e) = Some e"
| "failure (Resolves r) = (if ok r then None else Some (Error (''HTTP Error: '' @ statusText r)))"

text \<open>The trace entry of one attempt, and the line logged before a retry.\<close>

definition sent :: "request \<Rightarrow> event" where
  "sent rq = Fetch (rq\<lparr>timeout := Some 30000\<rparr>)"

definition retry_line :: "request \<Rightarrow> error \<Rightarrow> event" where
  "retry_line rq e =
     ConsoleError (''Retrying request to '' @ url rq @ '' due to error: '' @ message e)"

text \<open>What a run of failed and retried attempts leaves in the trace, one error per attempt.\<close>

definition retried :: "request \<Rightarrow> nat \<Rightarrow> error list \<Rightarrow> event list" where
  "retried rq delay es = concat (map (\<lambda>e. [sent rq, retry_line rq e, Sleep delay]) es)"


text \<open>
  The requests in a stretch of the trace, the bearer credential and the address a request
  carries, and \<open>extends s s' P\<close>: the trace of \<open>s'\<close> continues that of \<open>s\<close>, and every
  request sent in between satisfies \<open>P\<close>.
\<close>

fun requests :: "event list \<Rightarrow> request list" where
  "requests [] = []"
| "requests (Fetch rq # es) = rq # requests es"
| "requests (e # es) = requests es"



definition extends :: "state \<Rightarrow> state \<Rightarrow> (request \<Rightarrow> bool) \<Rightarrow> bool" where
  "extends s s' P = (\<exists>evs. trace s' = trace s @ evs \<and> list_all P (requests evs))"

section \<open>Worlds and inputs of the closed instances\<close>

text \<open>The state at the start, two nodes, an address and a request.\<close>

definition s0 :: state where
  "s0 = \<lparr>fetches = 0, reads = 0, trace = []\<rparr>"

definition n1 :: jsval where "n1 = JStr ''n1''"

definition h1 :: jsval where "h1 = JStr ''h1''"

definition n2 :: jsval where "n2 = JStr ''n2''"

definition h2 :: jsval where "h2 = JStr ''h2''"

definition ip0 :: jsval where "ip0 = JStr ''10.0.0.7''"

definition rq0 :: request where
  "rq0 = ping_rq (JStr ''n1'') ''tok''"

text \<open>
  Two contents of \<^verbatim>\<open>id.txt\<close>: one whose first line has an empty \<^verbatim>\<open>hardwareId\<close> and
  whose second line has none, and one with two complete lines.
\<close>

definition two_lines :: string where
  "two_lines = ''n1:'' @ [CHR 0x0A] @ ''n2''"

definition two_nodes :: string where
  "two_nodes = ''n1:h1'' @ [CHR 0x0A] @ ''n2:h2''"

text \<open>
  Responses: a success with a JSON object, a 503 without a body, a 500 with a JSON object,
  a success whose body is not JSON.
\<close>

definition r200 :: response where
  "r200 = \<lparr>ok = True, statusText = ''OK'', json = Some (JObj [(''status'', JStr ''ok'')]), bodyText = None\<rparr>"

definition r503 :: response where
  "r503 = \<lparr>ok = False, statusText = ''Service Unavailable'', json = None, bodyText = None\<rparr>"

definition r500 :: response where
  "r500 = \<lparr>ok = False, statusText = ''Internal Server Error'',
           json = Some (JObj [(''error'', JStr ''unavailable'')]), bodyText = None\<rparr>"

definition r_html :: response where
  "r_html = \<lparr>ok = True, statusText = ''OK'', json = None, bodyText = None\<rparr>"

text \<open>
  Worlds: the service is down; the first call is reset and the second answered with the
  503; every call succeeds; every call is answered with the 500; the first answer is not
  JSON; every call succeeds but \<^verbatim>\<open>user.txt\<close> is changed after its first read.
\<close>

definition w_down :: world where
  "w_down = \<lparr>net = (\<lambda>k. Rejects (Error ''ETIMEDOUT'')), userfile = (\<lambda>k. Some ''tok''), interfaces = []\<rparr>"

definition w_flaky :: world where
  "w_flaky = \<lparr>net = (\<lambda>k. if k = 0 then Rejects (Error ''ECONNRESET'')
                         else if k = 1 then Resolves r503 else Resolves r200),
               userfile = (\<lambda>k. Some ''tok''), interfaces = []\<rparr>"

definition w_ok :: world where
  "w_ok = \<lparr>net = (\<lambda>k. Resolves r200), userfile = (\<lambda>k. Some ''tok''), interfaces = []\<rparr>"

definition w_500 :: world where
  "w_500 = \<lparr>net = (\<lambda>k. Resolves r500), userfile = (\<lambda>k. Some ''tok''), interfaces = []\<rparr>"

definition w_html :: world where
  "w_html = \<lparr>net = (\<lambda>k. if k = 0 then Resolves r_html else Resolves r200),
              userfile = (\<lambda>k. Some ''tok''), interfaces = []\<rparr>"





text \<open>
  A task about to send its initial ping, the address of a machine without an external
  interface, and the states after a failed firing for \<open>n1\<close> and after the handler.
\<close>

definition t_ping :: task where
  "t_ping = \<lparr>nodeId = n1, hardwareId = h1, ipAddress = ip0, stage = InitialPing, st = s0\<rparr>"

definition local_ip :: jsval where "local_ip = JStr ''127.0.0.1''"

definition s_fired :: state where
  "s_fired = \<lparr>fetches = 1, reads = 1,
       trace = [ConsoleLog ''Sending ping for nodeId: n1'', ReadFile ''user.txt'',
                ConsoleLog ''Pinging node n1 with IP: 10.0.0.7'', Fetch (ping_rq n1 ''tok''),
                ConsoleError ''Error during ping: ETIMEDOUT'']\<rparr>"

definition s_handled :: state where
  "s_handled = \<lparr>fetches = 1, reads = 1,
       trace = trace s_fired @
               [ConsoleError ''Uncaught exception: ETIMEDOUT'',
                Prompt option_prompt,
                ConsoleLogData ''Local network IP:'' local_ip]\<rparr>"

section \<open>Properties of \<^verbatim>\<open>retryFetch\<close>\<close>

lemma attempt_fail:
  "failure (net w (fetches s)) = Some e \<Longrightarrow>
   attempt w rq s = (Inl e, emit (sent rq) (s\<lparr>fetches := Suc (fetches s)\<rparr>))"
  by (cases "net w (fetches s)") (auto simp: attempt_def fetch_def sent_def split: if_splits)

lemma attempt_ok:
  "failure (net w (fetches s)) = None \<Longrightarrow>
   \<exists>r. net w (fetches s) = Resolves r \<and> ok r \<and>
     attempt w rq s = (Inr r, emit (sent rq) (s\<lparr>fetches := Suc (fetches s)\<rparr>))"
  by (cases "net w (fetches s)") (auto simp: attempt_def fetch_def sent_def split: if_splits)

lemma retried_Cons:
  "retried rq delay (e # es) = [sent rq, retry_line rq e, Sleep delay] @ retried rq delay es"
  by (simp add: retried_def)

lemma map_upt_shift: "map f [0..<Suc n] = f 0 # map (\<lambda>k. f (Suc k)) [0..<n]"
  by (simp add: upt_conv_Cons map_Suc_upt[symmetric] del: upt_Suc)

lemma retry_bounded:
  "(\<forall>k\<le>n. failure (net w (fetches s + k)) = Some (errs k)) \<Longrightarrow>
   retryFetch w rq False (int n) delay s =
     Some (Inl (errs n),
           s\<lparr>fetches := fetches s + n + 1,
             trace := trace s @ retried rq delay (map errs [0..<n]) @ [sent rq]\<rparr>)"
proof (induction n arbitrary: s errs)
  case 0
  then have e: "failure (net w (fetches s)) = Some (errs 0)" by simp
  show ?case
    by (subst retryFetch.simps) (simp add: attempt_fail[OF e] emit_def retried_def)
next
  case (Suc n)
  from Suc.prems have e: "failure (net w (fetches s)) = Some (errs 0)"
    by (metis add.right_neutral le0)
  let ?s = "emit (Sleep delay) (emit (retry_line rq (errs 0)) (emit (sent rq) (s\<lparr>fetches := Suc (fetches s)\<rparr>)))"
  have fs: "fetches ?s = Suc (fetches s)" by (simp add: emit_def)
  have "\<forall>k\<le>n. failure (net w (fetches ?s + k)) = Some (errs (Suc k))"
    using Suc.prems fs by (metis Suc_le_mono add_Suc_shift)
  from Suc.IH[OF this] show ?case
    by (subst retryFetch.simps)
       (simp add: attempt_fail[OF e] emit_def retry_line_def map_upt_shift retried_Cons del: upt_Suc)
qed

lemma retry_infinite:
  "(\<forall>k<n. failure (net w (fetches s + k)) = Some (errs k)) \<Longrightarrow>
   net w (fetches s + n) = Resolves r \<Longrightarrow> ok r \<Longrightarrow>
   retryFetch w rq True m delay s =
     Some (Inr r,
           s\<lparr>fetches := fetches s + n + 1,
             trace := trace s @ retried rq delay (map errs [0..<n]) @ [sent rq]\<rparr>)"
proof (induction n arbitrary: s errs)
  case 0
  then have "failure (net w (fetches s)) = None" by simp
  from attempt_ok[OF this, of rq] 0 show ?case
    by (subst retryFetch.simps) (auto simp: emit_def retried_def)
next
  case (Suc n)
  from Suc.prems have e: "failure (net w (fetches s)) = Some (errs 0)"
    by (metis add.right_neutral zero_less_Suc)
  let ?s = "emit (Sleep delay) (emit (retry_line rq (errs 0)) (emit (sent rq) (s\<lparr>fetches := Suc (fetches s)\<rparr>)))"
  have fs: "fetches ?s = Suc (fetches s)" by (simp add: emit_def)
  have a: "\<forall>k<n. failure (net w (fetches ?s + k)) = Some (errs (Suc k))"
    using Suc.prems(1) fs by (metis Suc_less_eq add_Suc_shift)
  have b: "net w (fetches ?s + n) = Resolves r" using Suc.prems(2) fs by simp
  from Suc.IH[OF a b Suc.prems(3)] show ?case
    by (subst retryFetch.simps)
       (simp add: attempt_fail[OF e] emit_def retry_line_def map_upt_shift retried_Cons del: upt_Suc)
qed


lemma returned_ok:
  assumes "retryFetch w rq ir n d s = Some y"
  shows "\<forall>r s'. y = (Inr r, s') \<longrightarrow> ok r"
proof (rule retryFetch.raw_induct
    [where P = "\<lambda>w rq ir n d s y. \<forall>r s'. y = (Inr r, s') \<longrightarrow> ok r", OF _ assms], goal_cases)
  case (1 f w rq infiniteRetry retries delay s y)
  show ?case
  proof (cases "failure (net w (fetches s))")
    case None
    from attempt_ok[OF None, of rq] obtain r where
      "ok r" "attempt w rq s = (Inr r, emit (sent rq) (s\<lparr>fetches := Suc (fetches s)\<rparr>))" by blast
    with 1(2) show ?thesis by auto
  next
    case (Some e)
    from 1(2) show ?thesis
      unfolding attempt_fail[OF Some, of rq]
      by (auto split: if_splits dest: 1(1))
  qed
qed

lemma infinite_no_throw:
  assumes "retryFetch w rq ir n d s = Some y"
  shows "ir \<longrightarrow> (\<forall>e s'. y \<noteq> (Inl e, s'))"
proof (rule retryFetch.raw_induct
    [where P = "\<lambda>w rq ir n d s y. ir \<longrightarrow> (\<forall>e s'. y \<noteq> (Inl e, s'))", OF _ assms], goal_cases)
  case (1 f w rq infiniteRetry retries delay s y)
  from 1(2) show ?case
    by (auto split: prod.splits sum.splits if_splits dest: 1(1))
qed

lemma returns_needs_success:
  assumes "retryFetch w rq ir n d s = Some y"
  shows "ir \<longrightarrow> (\<exists>k. failure (net w (fetches s + k)) = None)"
proof (rule retryFetch.raw_induct
    [where P = "\<lambda>w rq ir n d s y. ir \<longrightarrow> (\<exists>k. failure (net w (fetches s + k)) = None)",
      OF _ assms], goal_cases)
  case (1 f w rq infiniteRetry retries delay s y)
  show ?case
  proof (cases "failure (net w (fetches s))")
    case None
    then show ?thesis by (metis add.right_neutral)
  next
    case (Some e)
    let ?s = "emit (Sleep delay) (emit (retry_line rq e) (emit (sent rq) (s\<lparr>fetches := Suc (fetches s)\<rparr>)))"
    have fs: "fetches ?s = Suc (fetches s)" by (simp add: emit_def)
    show ?thesis
    proof
      assume ir: infiniteRetry
      from 1(2) ir have "f w rq infiniteRetry retries delay ?s = Some y"
        unfolding attempt_fail[OF Some, of rq] by (simp add: retry_line_def)
      from 1(1)[OF this] ir obtain k where "failure (net w (fetches ?s + k)) = None" by blast
      then have "failure (net w (fetches s + Suc k)) = None" by (simp add: fs)
      then show "\<exists>k. failure (net w (fetches s + k)) = None" by blast
    qed
  qed
qed

text \<open>
  Claim C1. With \<^verbatim>\<open>infiniteRetry = false\<close> and a remaining-attempts counter of \<open>N\<close>, when
  each of the attempts fails (the \<^verbatim>\<open>fetch\<close> rejects, or the response is not \<^verbatim>\<open>ok\<close>),
  \<^verbatim>\<open>retryFetch\<close> calls \<^verbatim>\<open>fetch\<close> exactly \<open>N + 1\<close> times, logs and waits after each of the
  first \<open>N\<close> failures, and then throws the error of the last attempt.
\<close>

theorem retryFetch_bounded_exhausts:
  assumes "\<forall>k\<le>N. failure (net w (fetches s + k)) = Some (errs k)"
  shows "\<exists>s'. retryFetch w rq False (int N) delay s = Some (Inl (errs N), s')
           \<and> fetches s' = fetches s + (N + 1)
           \<and> trace s' = trace s @ retried rq delay (map errs [0..<N]) @ [sent rq]"
  using retry_bounded[OF assms, of rq delay] by simp

theorem retryFetch_bounded_exhausts_witness:
  "\<exists>s'. retryFetch2 w_down rq0 s0 = Some (Inl (Error ''ETIMEDOUT''), s')
         \<and> fetches s' = 4
         \<and> trace s' =
             [sent rq0, retry_line rq0 (Error ''ETIMEDOUT''), Sleep 1000,
              sent rq0, retry_line rq0 (Error ''ETIMEDOUT''), Sleep 1000,
              sent rq0, retry_line rq0 (Error ''ETIMEDOUT''), Sleep 1000,
              sent rq0]"
proof -
  have h: "\<forall>k\<le>3. failure (net w_down (fetches s0 + k)) = Some (Error ''ETIMEDOUT'')"
    by (simp add: w_down_def)
  have u: "[0..<3] = [0, 1, 2]" by (simp add: upt_conv_Cons)
  from retryFetch_bounded_exhausts[of 3 w_down s0 "\<lambda>k. Error ''ETIMEDOUT''" rq0 1000, OF h]
  show ?thesis
    by (simp add: retryFetch2_def s0_def retried_def u)
qed

text \<open>
  Claim C3. With \<^verbatim>\<open>infiniteRetry = true\<close> a call of \<^verbatim>\<open>retryFetch\<close> never throws. After
  each failed attempt it logs, waits exactly \<open>delay\<close> milliseconds (the same value every
  time; 1000 at the call sites, which pass three arguments) and tries again; it returns at
  the first attempt that succeeds, and it does not return at all when no attempt succeeds.
\<close>

theorem retryFetch_infinite_never_raises:
  "retryFetch w rq True m delay s \<noteq> Some (Inl e, s')
   \<and> ((\<forall>k<n. failure (net w (fetches s + k)) = Some (errs k))
        \<and> net w (fetches s + n) = Resolves r \<and> ok r \<longrightarrow>
      retryFetch w rq True m delay s =
        Some (Inr r, s\<lparr>fetches := fetches s + n + 1,
                       trace := trace s @ retried rq delay (map errs [0..<n]) @ [sent rq]\<rparr>))
   \<and> ((\<forall>k. failure (net w (fetches s + k)) \<noteq> None) \<longrightarrow>
      retryFetch w rq True m delay s = None)
   \<and> retryFetch3 w rq True s = retryFetch w rq True 3 1000 s"
proof (intro conjI impI)
  show "retryFetch w rq True m delay s \<noteq> Some (Inl e, s')"
    using infinite_no_throw[of w rq True m delay s "(Inl e, s')"] by blast
next
  assume "(\<forall>k<n. failure (net w (fetches s + k)) = Some (errs k))
        \<and> net w (fetches s + n) = Resolves r \<and> ok r"
  then show "retryFetch w rq True m delay s =
        Some (Inr r, s\<lparr>fetches := fetches s + n + 1,
                       trace := trace s @ retried rq delay (map errs [0..<n]) @ [sent rq]\<rparr>)"
    using retry_infinite[of n w s errs r rq m delay] by blast
next
  assume a: "\<forall>k. failure (net w (fetches s + k)) \<noteq> None"
  show "retryFetch w rq True m delay s = None"
  proof (cases "retryFetch w rq True m delay s")
    case (Some y)
    from returns_needs_success[OF Some] a show ?thesis by blast
  qed simp
next
  show "retryFetch3 w rq True s = retryFetch w rq True 3 1000 s"
    by (simp add: retryFetch3_def)
qed

theorem retryFetch_infinite_never_raises_witness:
  "retryFetch3 w_flaky rq0 True s0 =
     Some (Inr r200,
           \<lparr>fetches = 3, reads = 0,
            trace = [sent rq0, retry_line rq0 (Error ''ECONNRESET''), Sleep 1000,
                     sent rq0, retry_line rq0 (Error ''HTTP Error: Service Unavailable''), Sleep 1000,
                     sent rq0]\<rparr>)
   \<and> retryFetch3 w_down rq0 True s0 = None"
proof -
  let ?errs = "\<lambda>k::nat. if k = 0 then Error ''ECONNRESET'' else Error ''HTTP Error: Service Unavailable''"
  have u: "[0..<2] = [0, 1]" by (simp add: upt_conv_Cons)
  have h1: "(\<forall>k<2. failure (net w_flaky (fetches s0 + k)) = Some (?errs k))
        \<and> net w_flaky (fetches s0 + 2) = Resolves r200 \<and> ok r200"
    by (simp add: w_flaky_def s0_def r503_def r200_def less_Suc_eq numeral_2_eq_2)
  have h2: "\<forall>k. failure (net w_down (fetches s0 + k)) \<noteq> None"
    by (simp add: w_down_def)
  from retryFetch_infinite_never_raises[of w_flaky rq0 3 1000 s0 "Error []" s0 2 ?errs r200] h1
  have a: "retryFetch w_flaky rq0 True 3 1000 s0 =
        Some (Inr r200, s0\<lparr>fetches := fetches s0 + 2 + 1,
                       trace := trace s0 @ retried rq0 1000 (map ?errs [0..<2]) @ [sent rq0]\<rparr>)"
    by blast
  from retryFetch_infinite_never_raises[of w_down rq0 3 1000 s0 "Error []" s0 0 ?errs r200] h2
  have b: "retryFetch w_down rq0 True 3 1000 s0 = None"
    by blast
  show ?thesis
    using a b by (simp add: retryFetch3_def s0_def retried_def u)
qed

text \<open>
  Claim C10. Whatever the flag and the retry budget, a response that \<^verbatim>\<open>retryFetch\<close>
  returns has \<^verbatim>\<open>ok = true\<close>.
\<close>

theorem retryFetch_returns_only_ok:
  "retryFetch w rq infiniteRetry retries delay s = Some (Inr r, s') \<Longrightarrow> ok r"
  using returned_ok[of w rq infiniteRetry retries delay s "(Inr r, s')"] by blast

theorem retryFetch_returns_only_ok_witness:
  "retryFetch w_flaky rq0 False 3 1000 s0 =
     Some (Inr r200,
           \<lparr>fetches = 3, reads = 0,
            trace = [sent rq0, retry_line rq0 (Error ''ECONNRESET''), Sleep 1000,
                     sent rq0, retry_line rq0 (Error ''HTTP Error: Service Unavailable''), Sleep 1000,
                     sent rq0]\<rparr>)
   \<and> ok r200"
proof -
  have e: "retryFetch w_flaky rq0 False 3 1000 s0 =
     Some (Inr r200,
           \<lparr>fetches = 3, reads = 0,
            trace = [sent rq0, retry_line rq0 (Error ''ECONNRESET''), Sleep 1000,
                     sent rq0, retry_line rq0 (Error ''HTTP Error: Service Unavailable''), Sleep 1000,
                     sent rq0]\<rparr>)"
    by (simp add: retryFetch.simps attempt_def fetch_def emit_def w_flaky_def s0_def r503_def
        r200_def sent_def retry_line_def rq0_def ping_rq_def)
  from retryFetch_returns_only_ok[OF e] e show ?thesis by simp
qed


section \<open>\<^verbatim>\<open>isValidIP\<close> and the manual address\<close>

lemma rmatch_lang: "set (rmatch r s) = {v. \<exists>u. u \<in> lang r \<and> s = u @ v}"
proof (induction r arbitrary: s)
  case (Cls cs)
  show ?case by (cases s) auto
next
  case (Seq r1 r2)
  show ?case
    apply (auto simp: Seq)
     apply (metis append.assoc)
    by (metis append.assoc)
next
  case (Alt r1 r2)
  show ?case by (auto simp: Alt)
next
  case (Opt r)
  show ?case by (auto simp: Opt)
qed

lemma test_lang: "test r s \<longleftrightarrow> s \<in> lang r"
  by (auto simp: test_def rmatch_lang)

lemma digit_cases:
  "is_digit c \<longleftrightarrow> c = CHR ''0'' \<or> c = CHR ''1'' \<or> c = CHR ''2'' \<or> c = CHR ''3'' \<or> c = CHR ''4''
     \<or> c = CHR ''5'' \<or> c = CHR ''6'' \<or> c = CHR ''7'' \<or> c = CHR ''8'' \<or> c = CHR ''9''"
  by (auto simp: is_digit_def)

lemma digit_le9: "is_digit c \<Longrightarrow> digit_value c \<le> 9"
  by (auto simp: digit_cases digit_value_def)

lemma in05: "c \<in> set ''012345'' \<longleftrightarrow> is_digit c \<and> digit_value c \<le> 5"
  by (auto simp: digit_cases digit_value_def)
lemma in04: "c \<in> set ''01234'' \<longleftrightarrow> is_digit c \<and> digit_value c \<le> 4"
  by (auto simp: digit_cases digit_value_def)
lemma in01: "c \<in> set ''01'' \<longleftrightarrow> is_digit c \<and> digit_value c \<le> 1"
  by (auto simp: digit_cases digit_value_def)
lemma is2: "c = CHR ''2'' \<longleftrightarrow> is_digit c \<and> digit_value c = 2"
  by (auto simp: digit_cases digit_value_def)
lemma is5: "c = CHR ''5'' \<longleftrightarrow> is_digit c \<and> digit_value c = 5"
  by (auto simp: digit_cases digit_value_def)


lemma Nil_in_Cls: "[] \<in> lang (Cls cs) \<longleftrightarrow> False"
  by simp
lemma Cons_in_Cls: "x # q \<in> lang (Cls cs) \<longleftrightarrow> q = [] \<and> x \<in> set cs"
  by auto
lemma Nil_in_SeqCls: "[] \<in> lang (Seq (Cls cs) r) \<longleftrightarrow> False"
  by simp
lemma Cons_in_SeqCls: "x # q \<in> lang (Seq (Cls cs) r) \<longleftrightarrow> x \<in> set cs \<and> q \<in> lang r"
proof
  assume "x # q \<in> lang (Seq (Cls cs) r)"
  then obtain c v where "x # q = [c] @ v" "c \<in> set cs" "v \<in> lang r" by auto
  then show "x \<in> set cs \<and> q \<in> lang r" by simp
next
  assume a: "x \<in> set cs \<and> q \<in> lang r"
  have "x # q = [x] @ q" by simp
  with a show "x # q \<in> lang (Seq (Cls cs) r)" unfolding lang.simps by blast
qed
lemma in_SeqOpt: "p \<in> lang (Seq (Opt r1) r2) \<longleftrightarrow> p \<in> lang r2 \<or> p \<in> lang (Seq r1 r2)"
  by auto
lemma in_Opt: "p \<in> lang (Opt r) \<longleftrightarrow> p = [] \<or> p \<in> lang r"
  by auto
lemma in_Alt: "p \<in> lang (Alt r1 r2) \<longleftrightarrow> p \<in> lang r1 \<or> p \<in> lang r2"
  by auto

lemmas octet_unfold = octet_def digit09_def digit05_def digit04_def digit01_def
  in_Alt in_SeqOpt in_Opt Nil_in_Cls Cons_in_Cls Nil_in_SeqCls Cons_in_SeqCls

lemma in09: "c \<in> set ''0123456789'' \<longleftrightarrow> is_digit c"
  by (simp add: is_digit_def)

lemma octet0: "[] \<notin> lang octet"
  by (simp only: octet_unfold) simp

lemma octet1: "[a] \<in> lang octet \<longleftrightarrow> is_digit a"
  by (simp only: octet_unfold in09) auto

lemma octet2: "[a, b] \<in> lang octet \<longleftrightarrow> is_digit a \<and> is_digit b"
  by (simp only: octet_unfold in09 in01) (auto simp: is_digit_def)

lemma octet3:
  "[a, b, c] \<in> lang octet \<longleftrightarrow>
     is_digit a \<and> is_digit b \<and> is_digit c \<and>
     100 * digit_value a + 10 * digit_value b + digit_value c \<le> 255"
proof -
  have "[a, b, c] \<in> lang octet \<longleftrightarrow>
      (a = CHR ''2'' \<and> b = CHR ''5'' \<and> c \<in> set ''012345'')
    \<or> (a = CHR ''2'' \<and> b \<in> set ''01234'' \<and> is_digit c)
    \<or> (a \<in> set ''01'' \<and> is_digit b \<and> is_digit c)"
    by (simp only: octet_unfold in09) (auto simp: is_digit_def)
  also have "\<dots> \<longleftrightarrow> is_digit a \<and> is_digit b \<and> is_digit c \<and>
     100 * digit_value a + 10 * digit_value b + digit_value c \<le> 255"
    unfolding in05 in04 in01 is2 is5
    using digit_le9[of a] digit_le9[of b] digit_le9[of c] by auto
  finally show ?thesis .
qed

lemma octet4: "a # b # c # d # q \<notin> lang octet"
  by (simp only: octet_unfold) simp

lemma octet_spec: "p \<in> lang octet \<longleftrightarrow> spec_octet p"
proof (cases p)
  case Nil
  then show ?thesis by (simp add: octet0 spec_octet_def)
next
  case p1: (Cons a q)
  show ?thesis
  proof (cases q)
    case Nil
    with p1 show ?thesis
      using digit_le9[of a] by (auto simp: octet1 spec_octet_def decimal_def)
  next
    case p2: (Cons b q2)
    show ?thesis
    proof (cases q2)
      case Nil
      with p1 p2 show ?thesis
        using digit_le9[of a] digit_le9[of b] by (auto simp: octet2 spec_octet_def decimal_def)
    next
      case p3: (Cons c q3)
      show ?thesis
      proof (cases q3)
        case Nil
        with p1 p2 p3 show ?thesis
          by (auto simp: octet3 spec_octet_def decimal_def)
      next
        case (Cons d q4)
        with p1 p2 p3 show ?thesis
          by (simp add: octet4 spec_octet_def)
      qed
    qed
  qed
qed

lemma not_digit_dot: "\<not> is_digit CHR ''.''"
  by (simp add: is_digit_def)

lemma spec_octet_no_dot: "spec_octet p \<Longrightarrow> CHR ''.'' \<notin> set p"
proof
  assume "spec_octet p" and "CHR ''.'' \<in> set p"
  then have "is_digit CHR ''.''"
    unfolding spec_octet_def list_all_iff by blast
  then show False by (simp add: not_digit_dot)
qed

lemma split_on_no_sep: "c \<notin> set u \<Longrightarrow> split_on c u = [u]"
  by (induction u) auto

lemma split_on_ne: "split_on c s \<noteq> []"
  by (induction s) (simp_all split: list.split)

lemma split_on_append: "c \<notin> set u \<Longrightarrow> split_on c (u @ c # v) = u # split_on c v"
  by (induction u) auto

lemma split_on_Cons:
  "split_on c s = p # ps \<Longrightarrow>
     c \<notin> set p \<and> (if ps = [] then s = p else \<exists>rest. s = p @ c # rest \<and> split_on c rest = ps)"
proof (induction s arbitrary: p ps)
  case Nil
  then show ?case by auto
next
  case (Cons x xs)
  show ?case
  proof (cases "x = c")
    case True
    with Cons.prems show ?thesis by (auto simp: split_on_ne)
  next
    case False
    with Cons.prems obtain y ys where y: "split_on c xs = y # ys" "p = x # y" "ps = ys"
      by (auto simp: split_on_ne split: list.splits)
    from Cons.IH[OF y(1)] y False show ?thesis by (auto split: if_splits)
  qed
qed

lemma lang_ipRegex:
  "s \<in> lang ipRegex \<longleftrightarrow>
     (\<exists>a b c d. s = a @ CHR ''.'' # b @ CHR ''.'' # c @ CHR ''.'' # d
        \<and> a \<in> lang octet \<and> b \<in> lang octet \<and> c \<in> lang octet \<and> d \<in> lang octet)"
  unfolding ipRegex_def dot_def
  apply (simp only: lang.simps)
  apply auto
  by (metis append_Cons append_Nil)

lemma isValidIP_spec: "isValidIP ip \<longleftrightarrow> spec_dotted_quad ip"
proof
  assume "isValidIP ip"
  then obtain a b c d where s: "ip = a @ CHR ''.'' # b @ CHR ''.'' # c @ CHR ''.'' # d"
    and o: "spec_octet a" "spec_octet b" "spec_octet c" "spec_octet d"
    unfolding isValidIP_def test_lang lang_ipRegex octet_spec by blast
  have "split_on CHR ''.'' ip = [a, b, c, d]"
    unfolding s using o
    by (simp add: split_on_append split_on_no_sep spec_octet_no_dot)
  with o show "spec_dotted_quad ip" by (simp add: spec_dotted_quad_def)
next
  assume q: "spec_dotted_quad ip"
  then obtain a b c d where sp: "split_on CHR ''.'' ip = [a, b, c, d]"
    and o: "spec_octet a" "spec_octet b" "spec_octet c" "spec_octet d"
    by (auto simp: spec_dotted_quad_def split: list.splits)
  from split_on_Cons[OF sp] obtain r1 where r1: "ip = a @ CHR ''.'' # r1" "split_on CHR ''.'' r1 = [b, c, d]"
    by auto
  from split_on_Cons[OF r1(2)] obtain r2 where r2: "r1 = b @ CHR ''.'' # r2" "split_on CHR ''.'' r2 = [c, d]"
    by auto
  from split_on_Cons[OF r2(2)] obtain r3 where r3: "r2 = c @ CHR ''.'' # r3" "split_on CHR ''.'' r3 = [d]"
    by auto
  from split_on_Cons[OF r3(2)] have r4: "r3 = d" by auto
  have "ip = a @ CHR ''.'' # b @ CHR ''.'' # c @ CHR ''.'' # d"
    using r1 r2 r3 r4 by simp
  with o show "isValidIP ip"
    unfolding isValidIP_def test_lang lang_ipRegex octet_spec by blast
qed


lemmas ip_eval = isValidIP_def test_def ipRegex_def octet_def digit09_def digit05_def digit04_def
  digit01_def dot_def

text \<open>
  Claim C9. \<open>isValidIP\<close> accepts exactly the dotted quads with octets in 0 to 255. When
  the user picks manual entry (the trimmed answer is \<^verbatim>\<open>1\<close>) and the trimmed address does
  not pass \<open>isValidIP\<close>, \<^verbatim>\<open>fetchIpAddress\<close> logs the error and answers with a fresh call of
  itself on the lines still to come: nothing of what it returns comes from the rejected
  string. A manual address that it does return has passed \<open>isValidIP\<close>.
\<close>

theorem invalid_manual_ip_reprompts:
  "(isValidIP ip \<longleftrightarrow> spec_dotted_quad ip)
   \<and> (trim a = ''1'' \<and> \<not> isValidIP (trim b) \<longrightarrow>
        fetchIpAddress w (a # b # rest) s =
          fetchIpAddress w rest
            (emit (ConsoleError ''Invalid IP address. Please try again.'')
               (emit (Prompt ''Enter your IP address: '') (emit (Prompt choice_prompt) s))))
   \<and> (trim a = ''1'' \<and> isValidIP (trim b) \<longrightarrow>
        fetchIpAddress w (a # b # rest) s =
          Some (Inr (JStr (trim b)), rest,
                emit (ConsoleLog (''Using IP address: '' @ trim b))
                  (emit (Prompt ''Enter your IP address: '') (emit (Prompt choice_prompt) s))))"
proof (intro conjI impI)
  show "isValidIP ip \<longleftrightarrow> spec_dotted_quad ip" by (rule isValidIP_spec)
next
  assume "trim a = ''1'' \<and> \<not> isValidIP (trim b)"
  then show "fetchIpAddress w (a # b # rest) s =
          fetchIpAddress w rest
            (emit (ConsoleError ''Invalid IP address. Please try again.'')
               (emit (Prompt ''Enter your IP address: '') (emit (Prompt choice_prompt) s)))"
    by (subst fetchIpAddress.simps) (simp add: promptInput_def choice_prompt_def)
next
  assume "trim a = ''1'' \<and> isValidIP (trim b)"
  then show "fetchIpAddress w (a # b # rest) s =
          Some (Inr (JStr (trim b)), rest,
                emit (ConsoleLog (''Using IP address: '' @ trim b))
                  (emit (Prompt ''Enter your IP address: '') (emit (Prompt choice_prompt) s)))"
    by (subst fetchIpAddress.simps) (simp add: promptInput_def choice_prompt_def using_ip_def)
qed

lemma trim_ex: "trim ''1'' = ''1''" "trim ''999.1.1.1'' = ''999.1.1.1''" "trim ''abc'' = ''abc''"
  "trim '' 10.0.0.7 '' = ''10.0.0.7''"
  by (simp_all add: trim_def is_space_def)

theorem invalid_manual_ip_reprompts_witness:
  "\<not> isValidIP ''999.1.1.1'' \<and> \<not> isValidIP ''abc'' \<and> isValidIP ''10.0.0.7''
   \<and> fetchIpAddress w_down [''1'', ''999.1.1.1'', ''1'', ''abc'', ''1'', '' 10.0.0.7 ''] s0 =
       Some (Inr (JStr ''10.0.0.7''), [],
         \<lparr>fetches = 0, reads = 0,
          trace = [Prompt choice_prompt, Prompt ''Enter your IP address: '',
                   ConsoleError ''Invalid IP address. Please try again.'',
                   Prompt choice_prompt, Prompt ''Enter your IP address: '',
                   ConsoleError ''Invalid IP address. Please try again.'',
                   Prompt choice_prompt, Prompt ''Enter your IP address: '',
                   ConsoleLog ''Using IP address: 10.0.0.7'']\<rparr>)"
proof -
  have v1: "\<not> isValidIP ''999.1.1.1''" by (simp add: ip_eval)
  have v2: "\<not> isValidIP ''abc''" by (simp add: ip_eval)
  have v3: "isValidIP ''10.0.0.7''" by (simp add: ip_eval)
  note T = invalid_manual_ip_reprompts[of "''''" _ _ w_down]
  have 1: "fetchIpAddress w_down [''1'', ''999.1.1.1'', ''1'', ''abc'', ''1'', '' 10.0.0.7 ''] s0 =
      fetchIpAddress w_down [''1'', ''abc'', ''1'', '' 10.0.0.7 '']
        (emit (ConsoleError ''Invalid IP address. Please try again.'')
               (emit (Prompt ''Enter your IP address: '') (emit (Prompt choice_prompt) s0)))"
    using T[of "''1''" "''999.1.1.1''"] v1 by (simp add: trim_ex)
  have 2: "\<And>s. fetchIpAddress w_down [''1'', ''abc'', ''1'', '' 10.0.0.7 ''] s =
      fetchIpAddress w_down [''1'', '' 10.0.0.7 '']
        (emit (ConsoleError ''Invalid IP address. Please try again.'')
               (emit (Prompt ''Enter your IP address: '') (emit (Prompt choice_prompt) s)))"
    using T[of "''1''" "''abc''"] v2 by (simp add: trim_ex)
  have 3: "\<And>s. fetchIpAddress w_down [''1'', '' 10.0.0.7 ''] s =
      Some (Inr (JStr ''10.0.0.7''), [],
                emit (ConsoleLog (''Using IP address: '' @ ''10.0.0.7''))
                  (emit (Prompt ''Enter your IP address: '') (emit (Prompt choice_prompt) s)))"
    using T[of "''1''" "'' 10.0.0.7 ''"] v3 by (simp add: trim_ex)
  show ?thesis
    unfolding 1 2 3 using v1 v2 v3 by (simp add: emit_def s0_def)
qed


section \<open>The lifecycles\<close>

lemma forNodes0_append:
  "forNodes0 w ip (pre @ post) s = Option.bind (forNodes0 w ip pre s) (forNodes0 w ip post)"
proof (induction pre arbitrary: s)
  case Nil
  show ?case by simp
next
  case (Cons e pre)
  obtain n h where e: "e = (n, h)" by (cases e)
  show ?case unfolding e by (simp add: Cons split: option.split)
qed

lemma forNodesB_append:
  "forNodesB w ip (pre @ post) s = forNodesB w ip post (forNodesB w ip pre s)"
proof (induction pre arbitrary: s)
  case Nil
  show ?case by simp
next
  case (Cons e pre)
  obtain n h where e: "e = (n, h)" by (cases e)
  show ?case unfolding e by (simp add: Cons split: prod.split sum.split)
qed

text \<open>
  Claim C8, as amended. In part\_000 and in bless.js an entry whose \<^verbatim>\<open>nodeId\<close> or
  \<^verbatim>\<open>hardwareId\<close> is missing (empty, or absent after the split) only adds the
  \<^verbatim>\<open>Invalid ID entry\<close> line to the log: the entries before it run as they would without
  it, no lifecycle is started for it, and the entries after it are processed. The
  \<^verbatim>\<open>runAll\<close> of part\_001 has no such check: every entry that
  \<^verbatim>\<open>readNodeAndHardwareIds\<close> returns gets its task.
\<close>

theorem invalid_entry_skipped:
  "(\<not> truthy n \<or> \<not> truthy h \<longrightarrow>
      forNodes0 w ip (pre @ (n, h) # post) s =
        Option.bind (forNodes0 w ip pre s)
          (\<lambda>s1. forNodes0 w ip post (emit (invalid_entry n h) s1))
    \<and> forNodesB w ip (pre @ (n, h) # post) s =
        forNodesB w ip post (emit (invalid_entry n h) (forNodesB w ip pre s)))
   \<and> map (\<lambda>t. (nodeId t, hardwareId t)) (runAll1 data ip) = readNodeAndHardwareIds data"
proof (intro conjI impI)
  assume a: "\<not> truthy n \<or> \<not> truthy h"
  have "forNodes0 w ip ((n, h) # post) = (\<lambda>s1. forNodes0 w ip post (emit (invalid_entry n h) s1))"
    using a by (intro ext) auto
  then show "forNodes0 w ip (pre @ (n, h) # post) s =
        Option.bind (forNodes0 w ip pre s)
          (\<lambda>s1. forNodes0 w ip post (emit (invalid_entry n h) s1))"
    by (simp add: forNodes0_append)
  show "forNodesB w ip (pre @ (n, h) # post) s =
        forNodesB w ip post (emit (invalid_entry n h) (forNodesB w ip pre s))"
    using a by (auto simp: forNodesB_append)
next
  show "map (\<lambda>t. (nodeId t, hardwareId t)) (runAll1 data ip) = readNodeAndHardwareIds data"
    by (simp add: runAll1_def processNode_start_def split_def comp_def)
qed

lemma parse_ex: "parse_ids two_lines = [(JStr ''n1'', JStr ''''), (JStr ''n2'', JUndefined)]"
  by (simp add: two_lines_def parse_ids_def parse_line_def trim_def is_space_def element_def)

lemma read_ex: "readNodeAndHardwareIds two_lines = [(JStr ''n1'', JStr ''''), (JStr ''n2'', JUndefined)]"
  by (simp add: two_lines_def readNodeAndHardwareIds_def parse_line_def trim_def is_space_def element_def)

theorem invalid_entry_skipped_witness:
  "forNodes0 w_ok ip0 (parse_ids two_lines) s0 =
     Some \<lparr>fetches = 0, reads = 0,
           trace = [ConsoleError ''Invalid ID entry: nodeId=n1, hardwareId='',
                    ConsoleError ''Invalid ID entry: nodeId=n2, hardwareId=undefined'']\<rparr>
   \<and> forNodesB w_ok ip0 (parse_ids two_lines) s0 =
     \<lparr>fetches = 0, reads = 0,
           trace = [ConsoleError ''Invalid ID entry: nodeId=n1, hardwareId='',
                    ConsoleError ''Invalid ID entry: nodeId=n2, hardwareId=undefined'']\<rparr>"
proof -
  have t: "\<not> truthy (JStr ''n1'') \<or> \<not> truthy (JStr '''')" by simp
  from invalid_entry_skipped[of "JStr ''n1''" "JStr ''''" w_ok ip0 "[]" "[(JStr ''n2'', JUndefined)]" s0] t
  show ?thesis
    by (simp add: parse_ex emit_def invalid_entry_def s0_def)
qed

text \<open>
  Claim C8 as stated fails on part\_001: for the file content \<^verbatim>\<open>n1:\<close>, newline, \<^verbatim>\<open>n2\<close>
  both entries get a lifecycle (the first with an empty \<^verbatim>\<open>hardwareId\<close>, the second with
  none), nothing is logged about them, and the second one registers.
\<close>

theorem part001_starts_incomplete_entries:
  "runAll1 two_lines ip0 =
     [processNode_start (JStr ''n1'') (JStr '''') ip0, processNode_start (JStr ''n2'') JUndefined ip0]
   \<and> trace (st (processNode_start (JStr ''n1'') (JStr '''') ip0)) =
       [ConsoleLog ''Processing nodeId: n1, hardwareId: , IP: 10.0.0.7'']
   \<and> processNode_step w_ok (processNode_start (JStr ''n2'') JUndefined ip0) =
       \<lparr>nodeId = JStr ''n2'', hardwareId = JUndefined, ipAddress = ip0, stage = StartingSession,
        st = \<lparr>fetches = 1, reads = 1,
              trace = [ConsoleLog ''Processing nodeId: n2, hardwareId: undefined, IP: 10.0.0.7'',
                       ReadFile ''user.txt'',
                       ConsoleLog ''Registering node with IP: 10.0.0.7, Hardware ID: undefined'',
                       Fetch (register_rq (JStr ''n2'') JUndefined ip0 ''tok''),
                       ConsoleLogData ''Registration response:'' (JObj [(''status'', JStr ''ok'')]),
                       ConsoleLogData ''Node registration completed for nodeId: n2. Response:''
                         (JObj [(''status'', JStr ''ok'')])]\<rparr>\<rparr>"
  by (simp add: runAll1_def read_ex processNode_start_def processing_line_def ip0_def
      processNode_step_def registerNode_def readAuthToken_def readUserFile_def fetch_def emit_def
      w_ok_def r200_def trim_def is_space_def)

lemma pingNode0_exhausts:
  assumes "\<forall>k\<le>3. failure (net w (fetches s + k)) = Some (errs k)"
  shows "pingNode0 w n tok s =
           Some (Inl (errs 3),
                 s\<lparr>fetches := fetches s + 4,
                   trace := trace s @ retried (ping_rq n tok) 1000 (map errs [0..<3])
                              @ [sent (ping_rq n tok)]\<rparr>)"
  using retry_bounded[of 3 w s errs "ping_rq n tok" 1000, OF assms]
  by (simp add: pingNode0_def retryFetch2_def)

lemma pingNode1_one_fetch: "fetches (snd (pingNode1 w n ip s)) \<le> Suc (fetches s)"
  by (simp add: pingNode1_def readAuthToken_def readUserFile_def fetch_def emit_def Let_def
      split: prod.split sum.split option.split outcome.split)

lemma upt3: "[0..<3] = [0, 1, 2]"
  by (simp add: upt_conv_Cons)

lemma restart_fields:
  "stage (restart t e s) = Registering \<and> nodeId (restart t e s) = nodeId t
   \<and> hardwareId (restart t e s) = hardwareId t \<and> ipAddress (restart t e s) = ipAddress t
   \<and> fetches (st (restart t e s)) = fetches s \<and> reads (st (restart t e s)) = reads s
   \<and> trace (st (restart t e s)) =
       trace s @ [ConsoleError (''Error occurred for nodeId: '' @ to_string (nodeId t)
                    @ '', restarting process: '' @ message e),
                  processing_line (nodeId t) (hardwareId t) (ipAddress t)]"
  by (simp add: restart_def emit_def)

text \<open>
  Claim C7, as amended. In part\_000 an error thrown in the \<^verbatim>\<open>try\<close> block is logged, five
  seconds are waited, and the lifecycle runs again from the start for the same node. In
  part\_001 an error of registration, session start or the initial ping is logged and the
  lifecycle starts again from registration for the same node at once: no delay.
\<close>

theorem failed_lifecycle_restarts:
  "(onboard0 w n h ip s = Some (Inl e, s1) \<longrightarrow>
      lifecycle0 w n h ip s =
        lifecycle0 w n h ip
          (emit (Sleep 5000)
             (emit (ConsoleError (''Error processing node '' @ to_string n
                      @ ''. Retrying: '' @ message e)) s1)))
   \<and> ((stage t = Registering
          \<and> registerNode w (nodeId t) (hardwareId t) (ipAddress t) (st t) = (Inl e, s1))
        \<or> (stage t = StartingSession \<and> startSession w (nodeId t) (st t) = (Inl e, s1))
        \<or> (stage t = InitialPing \<and> pingNode1 w (nodeId t) (ipAddress t) (st t) = (Inl e, s1))
       \<longrightarrow> processNode_step w t = restart t e s1)
   \<and> stage (restart t e s1) = Registering \<and> nodeId (restart t e s1) = nodeId t
   \<and> hardwareId (restart t e s1) = hardwareId t \<and> ipAddress (restart t e s1) = ipAddress t
   \<and> trace (st (restart t e s1)) =
       trace s1 @ [ConsoleError (''Error occurred for nodeId: '' @ to_string (nodeId t)
                    @ '', restarting process: '' @ message e),
                  processing_line (nodeId t) (hardwareId t) (ipAddress t)]"
proof (intro conjI impI)
  assume "onboard0 w n h ip s = Some (Inl e, s1)"
  then show "lifecycle0 w n h ip s =
        lifecycle0 w n h ip
          (emit (Sleep 5000)
             (emit (ConsoleError (''Error processing node '' @ to_string n
                      @ ''. Retrying: '' @ message e)) s1))"
    by (subst lifecycle0.simps) simp
next
  assume "(stage t = Registering
          \<and> registerNode w (nodeId t) (hardwareId t) (ipAddress t) (st t) = (Inl e, s1))
        \<or> (stage t = StartingSession \<and> startSession w (nodeId t) (st t) = (Inl e, s1))
        \<or> (stage t = InitialPing \<and> pingNode1 w (nodeId t) (ipAddress t) (st t) = (Inl e, s1))"
  then show "processNode_step w t = restart t e s1"
    by (auto simp: processNode_step_def)
qed (simp_all add: restart_fields)

lemma trim_tok: "trim ''tok'' = ''tok''"
  by (simp add: trim_def is_space_def)

lemma to_string_n1: "to_string n1 = ''n1''"
  by (simp add: n1_def)

lemma onboard0_html:
  "onboard0 w_html n1 h1 ip0 s0 =
     Some (Inl json_error,
           \<lparr>fetches = 1, reads = 1,
            trace = [ReadFile ''user.txt'', sent (register_rq n1 h1 ip0 ''tok'')]\<rparr>)"
  by (simp add: onboard0_def readUserFile_def emit_def s0_def w_html_def trim_tok
      retryFetch3_def retryFetch.simps attempt_def fetch_def r_html_def sent_def)

lemma onboard0_ok:
  "onboard0 w_html n1 h1 ip0 \<lparr>fetches = Suc 0, reads = Suc 0, trace = tr\<rparr> =
     Some (Inr (),
           \<lparr>fetches = 4, reads = 2,
            trace = tr @
              [ReadFile ''user.txt'', sent (register_rq n1 h1 ip0 ''tok''),
               ConsoleLogData ''Registration response for n1:'' (JObj [(''status'', JStr ''ok'')]),
               sent (session_rq n1 ''tok''),
               ConsoleLogData ''Session started for n1:'' (JObj [(''status'', JStr ''ok'')]),
               sent (ping_rq n1 ''tok''),
               ConsoleLogData ''Ping response for n1:'' (JObj [(''status'', JStr ''ok'')]),
               SetInterval (PingNode0 n1 ''tok'') 60000]\<rparr>)"
  by (simp add: onboard0_def readUserFile_def emit_def w_html_def trim_tok
      retryFetch3_def retryFetch2_def retryFetch.simps attempt_def fetch_def r200_def sent_def
      pingNode0_def n1_def Let_def)

theorem failed_lifecycle_restarts_witness:
  "lifecycle0 w_html n1 h1 ip0 s0 =
     Some \<lparr>fetches = 4, reads = 2,
           trace = [ReadFile ''user.txt'', sent (register_rq n1 h1 ip0 ''tok''),
                    ConsoleError ''Error processing node n1. Retrying: invalid json response body'',
                    Sleep 5000,
                    ReadFile ''user.txt'', sent (register_rq n1 h1 ip0 ''tok''),
                    ConsoleLogData ''Registration response for n1:'' (JObj [(''status'', JStr ''ok'')]),
                    sent (session_rq n1 ''tok''),
                    ConsoleLogData ''Session started for n1:'' (JObj [(''status'', JStr ''ok'')]),
                    sent (ping_rq n1 ''tok''),
                    ConsoleLogData ''Ping response for n1:'' (JObj [(''status'', JStr ''ok'')]),
                    SetInterval (PingNode0 n1 ''tok'') 60000]\<rparr>
   \<and> processNode_step w_down (processNode_start n1 h1 ip0) =
       restart (processNode_start n1 h1 ip0) (Error ''ETIMEDOUT'')
         \<lparr>fetches = 1, reads = 1,
          trace = [ConsoleLog ''Processing nodeId: n1, hardwareId: h1, IP: 10.0.0.7'',
                   ReadFile ''user.txt'',
                   ConsoleLog ''Registering node with IP: 10.0.0.7, Hardware ID: h1'',
                   Fetch (register_rq n1 h1 ip0 ''tok'')]\<rparr>"
proof -
  let ?t = "processNode_start n1 h1 ip0"
  let ?s1 = "\<lparr>fetches = 1, reads = 1,
          trace = [ConsoleLog ''Processing nodeId: n1, hardwareId: h1, IP: 10.0.0.7'',
                   ReadFile ''user.txt'',
                   ConsoleLog ''Registering node with IP: 10.0.0.7, Hardware ID: h1'',
                   Fetch (register_rq n1 h1 ip0 ''tok'')]\<rparr>"
  have r: "stage ?t = Registering
      \<and> registerNode w_down (nodeId ?t) (hardwareId ?t) (ipAddress ?t) (st ?t) =
          (Inl (Error ''ETIMEDOUT''), ?s1)"
    by (simp add: processNode_start_def registerNode_def readAuthToken_def readUserFile_def
        fetch_def emit_def w_down_def trim_tok processing_line_def n1_def h1_def ip0_def)
  from failed_lifecycle_restarts[of w_html n1 h1 ip0 s0 json_error
      "\<lparr>fetches = 1, reads = 1,
            trace = [ReadFile ''user.txt'', sent (register_rq n1 h1 ip0 ''tok'')]\<rparr>"]
    onboard0_html
  have 1: "lifecycle0 w_html n1 h1 ip0 s0 =
        lifecycle0 w_html n1 h1 ip0
          (emit (Sleep 5000)
             (emit (ConsoleError (''Error processing node '' @ to_string n1
                      @ ''. Retrying: '' @ message json_error))
                \<lparr>fetches = 1, reads = 1,
                 trace = [ReadFile ''user.txt'', sent (register_rq n1 h1 ip0 ''tok'')]\<rparr>))"
    by blast
  from failed_lifecycle_restarts[of w_down n1 h1 ip0 s0 "Error ''ETIMEDOUT''" ?s1 ?t] r
  have 2: "processNode_step w_down ?t = restart ?t (Error ''ETIMEDOUT'') ?s1"
    by blast
  show ?thesis
    unfolding 1 2
    by (subst lifecycle0.simps) (simp add: emit_def onboard0_ok json_error_def to_string_n1)
qed

text \<open>
  Claim C7 as stated fails on part\_001: with the service down, two steps of a lifecycle
  send two registrations with nothing but log lines between them.
\<close>

theorem part001_restarts_without_delay:
  "processNode_step w_down (processNode_step w_down (processNode_start n1 h1 ip0)) =
     \<lparr>nodeId = n1, hardwareId = h1, ipAddress = ip0, stage = Registering,
      st = \<lparr>fetches = 2, reads = 2,
            trace = [ConsoleLog ''Processing nodeId: n1, hardwareId: h1, IP: 10.0.0.7'',
                     ReadFile ''user.txt'',
                     ConsoleLog ''Registering node with IP: 10.0.0.7, Hardware ID: h1'',
                     Fetch (register_rq n1 h1 ip0 ''tok''),
                     ConsoleError ''Error occurred for nodeId: n1, restarting process: ETIMEDOUT'',
                     ConsoleLog ''Processing nodeId: n1, hardwareId: h1, IP: 10.0.0.7'',
                     ReadFile ''user.txt'',
                     ConsoleLog ''Registering node with IP: 10.0.0.7, Hardware ID: h1'',
                     Fetch (register_rq n1 h1 ip0 ''tok''),
                     ConsoleError ''Error occurred for nodeId: n1, restarting process: ETIMEDOUT'',
                     ConsoleLog ''Processing nodeId: n1, hardwareId: h1, IP: 10.0.0.7'']\<rparr>\<rparr>"
  by (simp add: processNode_start_def processNode_step_def registerNode_def readAuthToken_def
      readUserFile_def fetch_def emit_def w_down_def trim_tok processing_line_def restart_def
      n1_def h1_def ip0_def)



lemma pingNode1_ok:
  "userfile w (reads s) = Some c \<Longrightarrow> net w (fetches s) = Resolves r \<Longrightarrow>
   json r = Some (JObj kvs) \<Longrightarrow>
   \<exists>s'. pingNode1 w n ip s = (Inr (JObj kvs), s') \<and> fetches s' = Suc (fetches s)
        \<and> reads s' = Suc (reads s)"
  by (simp add: pingNode1_def readAuthToken_def readUserFile_def fetch_def emit_def
      split: option.split)






lemma read_two: "readNodeAndHardwareIds two_nodes = [(n1, h1), (n2, h2)]"
  by (simp add: two_nodes_def readNodeAndHardwareIds_def parse_line_def trim_def is_space_def
      element_def n1_def h1_def n2_def h2_def)

lemma parse_two: "parse_ids two_nodes = [(n1, h1), (n2, h2)]"
  by (simp add: two_nodes_def parse_ids_def parse_line_def trim_def is_space_def
      element_def n1_def h1_def n2_def h2_def)



lemma onboard0_w_ok:
  "onboard0 w_ok n1 h1 ip0 s0 =
     Some (Inr (),
           \<lparr>fetches = 3, reads = 1,
            trace =
              [ReadFile ''user.txt'', sent (register_rq n1 h1 ip0 ''tok''),
               ConsoleLogData ''Registration response for n1:'' (JObj [(''status'', JStr ''ok'')]),
               sent (session_rq n1 ''tok''),
               ConsoleLogData ''Session started for n1:'' (JObj [(''status'', JStr ''ok'')]),
               sent (ping_rq n1 ''tok''),
               ConsoleLogData ''Ping response for n1:'' (JObj [(''status'', JStr ''ok'')]),
               SetInterval (PingNode0 n1 ''tok'') 60000]\<rparr>)"
  by (simp add: onboard0_def readUserFile_def emit_def w_ok_def trim_tok s0_def
      retryFetch3_def retryFetch2_def retryFetch.simps attempt_def fetch_def r200_def sent_def
      pingNode0_def n1_def Let_def)






section \<open>The token and the address\<close>






lemma extends_weaken: "extends s s' P \<Longrightarrow> (\<And>rq. P rq \<Longrightarrow> Q rq) \<Longrightarrow> extends s s' Q"
  unfolding extends_def by (auto simp: list_all_iff)


























section \<open>The initial ping\<close>

lemma pingNode1_raises_iff:
  "(\<exists>e s1. pingNode1 w n ip s = (Inl e, s1)) \<longleftrightarrow>
     userfile w (reads s) = None
     \<or> (\<exists>e. net w (fetches s) = Rejects e)
     \<or> (\<exists>r. net w (fetches s) = Resolves r
           \<and> (json r = None \<or> json r = Some JNull \<or> json r = Some JUndefined))"
proof (cases "userfile w (reads s)")
  case None
  then show ?thesis
    by (simp add: pingNode1_def readAuthToken_def readUserFile_def Let_def)
next
  case (Some c)
  show ?thesis
  proof (cases "net w (fetches s)")
    case (Rejects e)
    with Some show ?thesis
      by (simp add: pingNode1_def readAuthToken_def readUserFile_def fetch_def emit_def Let_def)
  next
    case (Resolves r)
    show ?thesis
    proof (cases "json r")
      case None
      with Some Resolves show ?thesis
        by (simp add: pingNode1_def readAuthToken_def readUserFile_def fetch_def emit_def Let_def)
    next
      case d: (Some data)
      with Some Resolves show ?thesis
        by (cases data)
           (simp_all add: pingNode1_def readAuthToken_def readUserFile_def fetch_def emit_def
              Let_def split: option.split)
    qed
  qed
qed

lemma initial_ping_status_ignored:
  assumes "stage t = InitialPing" "userfile w (reads (st t)) = Some c"
    "net w (fetches (st t)) = Resolves r" "json r = Some (JObj kvs)"
  shows "stage (processNode_step w t) = Heartbeating"
  using pingNode1_ok[OF assms(2,3,4), of "nodeId t" "ipAddress t"] assms(1)
  by (auto simp: processNode_step_def)

text \<open>
  Claim C4, as amended. In part\_001 the ping is one bare \<^verbatim>\<open>fetch\<close> with no retry:
  \<^verbatim>\<open>pingNode\<close> never calls \<^verbatim>\<open>fetch\<close> more than once. It throws exactly when
  \<^verbatim>\<open>user.txt\<close> cannot be read, the \<^verbatim>\<open>fetch\<close> rejects, or the body is not JSON or is
  \<^verbatim>\<open>null\<close>; in the initial ping whatever it throws goes at once to the \<^verbatim>\<open>catch\<close> of
  \<^verbatim>\<open>processNode\<close>, which starts the lifecycle again. The status of the response is not
  looked at: a response with a JSON object as body makes the node heartbeating, also when
  it is not \<^verbatim>\<open>ok\<close>. In part\_000 the ping goes through \<^verbatim>\<open>retryFetch\<close> with its defaults:
  when the attempts fail it is tried four times, one second apart, before the last error
  is thrown.
\<close>

theorem initial_ping_attempts:
  "fetches (snd (pingNode1 w n ip s)) \<le> Suc (fetches s)
   \<and> ((\<exists>e s1. pingNode1 w n ip s = (Inl e, s1)) \<longleftrightarrow>
        userfile w (reads s) = None
        \<or> (\<exists>e. net w (fetches s) = Rejects e)
        \<or> (\<exists>r. net w (fetches s) = Resolves r
              \<and> (json r = None \<or> json r = Some JNull \<or> json r = Some JUndefined)))
   \<and> (userfile w (reads s) = Some c \<and> net w (fetches s) = Rejects e \<longrightarrow>
        pingNode1 w n ip s =
          (Inl e, s\<lparr>fetches := Suc (fetches s), reads := Suc (reads s),
                    trace := trace s @
                      [ReadFile ''user.txt'',
                       ConsoleLog (''Pinging node '' @ to_string n @ '' with IP: '' @ to_string ip),
                       Fetch (ping_rq n (trim c))]\<rparr>))
   \<and> (stage t = InitialPing \<and> pingNode1 w (nodeId t) (ipAddress t) (st t) = (Inl e, s1) \<longrightarrow>
        processNode_step w t = restart t e s1)
   \<and> (stage t = InitialPing \<and> userfile w (reads (st t)) = Some c
        \<and> net w (fetches (st t)) = Resolves r \<and> json r = Some (JObj kvs) \<longrightarrow>
        stage (processNode_step w t) = Heartbeating)
   \<and> ((\<forall>k\<le>3. failure (net w (fetches s + k)) = Some (errs k)) \<longrightarrow>
        pingNode0 w n tok s =
          Some (Inl (errs 3),
                s\<lparr>fetches := fetches s + 4,
                  trace := trace s @ retried (ping_rq n tok) 1000 (map errs [0..<3])
                             @ [sent (ping_rq n tok)]\<rparr>))"
proof (intro conjI impI)
  show "fetches (snd (pingNode1 w n ip s)) \<le> Suc (fetches s)"
    by (rule pingNode1_one_fetch)
next
  show "(\<exists>e s1. pingNode1 w n ip s = (Inl e, s1)) \<longleftrightarrow>
        userfile w (reads s) = None
        \<or> (\<exists>e. net w (fetches s) = Rejects e)
        \<or> (\<exists>r. net w (fetches s) = Resolves r
              \<and> (json r = None \<or> json r = Some JNull \<or> json r = Some JUndefined))"
    by (rule pingNode1_raises_iff)
next
  assume "userfile w (reads s) = Some c \<and> net w (fetches s) = Rejects e"
  then show "pingNode1 w n ip s =
          (Inl e, s\<lparr>fetches := Suc (fetches s), reads := Suc (reads s),
                    trace := trace s @
                      [ReadFile ''user.txt'',
                       ConsoleLog (''Pinging node '' @ to_string n @ '' with IP: '' @ to_string ip),
                       Fetch (ping_rq n (trim c))]\<rparr>)"
    by (simp add: pingNode1_def readAuthToken_def readUserFile_def fetch_def emit_def Let_def)
next
  assume "stage t = InitialPing \<and> pingNode1 w (nodeId t) (ipAddress t) (st t) = (Inl e, s1)"
  then show "processNode_step w t = restart t e s1"
    by (simp add: processNode_step_def)
next
  assume "stage t = InitialPing \<and> userfile w (reads (st t)) = Some c
        \<and> net w (fetches (st t)) = Resolves r \<and> json r = Some (JObj kvs)"
  then show "stage (processNode_step w t) = Heartbeating"
    using initial_ping_status_ignored by blast
next
  assume "\<forall>k\<le>3. failure (net w (fetches s + k)) = Some (errs k)"
  then show "pingNode0 w n tok s =
          Some (Inl (errs 3),
                s\<lparr>fetches := fetches s + 4,
                  trace := trace s @ retried (ping_rq n tok) 1000 (map errs [0..<3])
                             @ [sent (ping_rq n tok)]\<rparr>)"
    by (rule pingNode0_exhausts)
qed

lemma step_500:
  "processNode_step w_500 t_ping =
     \<lparr>nodeId = n1, hardwareId = h1, ipAddress = ip0, stage = Heartbeating,
      st = \<lparr>fetches = 1, reads = 1,
            trace = [ReadFile ''user.txt'', ConsoleLog ''Pinging node n1 with IP: 10.0.0.7'',
                     Fetch (ping_rq n1 ''tok''),
                     ConsoleLog ''Ping response, NodeID: n1, Status: undefined, IP: 10.0.0.7'',
                     SetInterval (Heartbeat1 n1 ip0) 60000]\<rparr>\<rparr>"
  by (simp add: t_ping_def processNode_step_def pingNode1_def readAuthToken_def readUserFile_def
      fetch_def emit_def w_500_def r500_def s0_def trim_tok n1_def ip0_def)

lemma pingNode0_down:
  "pingNode0 w_down n1 ''tok'' s0 =
      Some (Inl (Error ''ETIMEDOUT''),
        \<lparr>fetches = 4, reads = 0,
         trace = [sent (ping_rq n1 ''tok''), retry_line (ping_rq n1 ''tok'') (Error ''ETIMEDOUT''), Sleep 1000,
                  sent (ping_rq n1 ''tok''), retry_line (ping_rq n1 ''tok'') (Error ''ETIMEDOUT''), Sleep 1000,
                  sent (ping_rq n1 ''tok''), retry_line (ping_rq n1 ''tok'') (Error ''ETIMEDOUT''), Sleep 1000,
                  sent (ping_rq n1 ''tok'')]\<rparr>)"
proof -
  have c: "\<forall>k\<le>3. failure (net w_down (fetches s0 + k)) = Some (Error ''ETIMEDOUT'')"
    by (simp add: w_down_def)
  from pingNode0_exhausts[OF c, of n1 "''tok''"] show ?thesis
    by (simp add: s0_def retried_def upt3)
qed

theorem initial_ping_attempts_witness:
  "pingNode1 w_down n1 ip0 s0 =
     (Inl (Error ''ETIMEDOUT''),
      \<lparr>fetches = 1, reads = 1,
       trace = [ReadFile ''user.txt'', ConsoleLog ''Pinging node n1 with IP: 10.0.0.7'',
                Fetch (ping_rq n1 ''tok'')]\<rparr>)
   \<and> processNode_step w_down t_ping =
      restart t_ping (Error ''ETIMEDOUT'')
        \<lparr>fetches = 1, reads = 1,
         trace = [ReadFile ''user.txt'', ConsoleLog ''Pinging node n1 with IP: 10.0.0.7'',
                  Fetch (ping_rq n1 ''tok'')]\<rparr>
   \<and> stage (processNode_step w_500 t_ping) = Heartbeating
   \<and> pingNode0 w_down n1 ''tok'' s0 =
      Some (Inl (Error ''ETIMEDOUT''),
        \<lparr>fetches = 4, reads = 0,
         trace = [sent (ping_rq n1 ''tok''), retry_line (ping_rq n1 ''tok'') (Error ''ETIMEDOUT''), Sleep 1000,
                  sent (ping_rq n1 ''tok''), retry_line (ping_rq n1 ''tok'') (Error ''ETIMEDOUT''), Sleep 1000,
                  sent (ping_rq n1 ''tok''), retry_line (ping_rq n1 ''tok'') (Error ''ETIMEDOUT''), Sleep 1000,
                  sent (ping_rq n1 ''tok'')]\<rparr>)"
proof -
  let ?s1 = "\<lparr>fetches = 1, reads = 1,
         trace = [ReadFile ''user.txt'', ConsoleLog ''Pinging node n1 with IP: 10.0.0.7'',
                  Fetch (ping_rq n1 ''tok'')]\<rparr>"
  note D = initial_ping_attempts[of w_down n1 ip0 s0 "''tok''" "Error ''ETIMEDOUT''" t_ping ?s1
      r500 "[(''error'', JStr ''unavailable'')]" "\<lambda>k. Error ''ETIMEDOUT''" "''tok''"]
  note F = initial_ping_attempts[of w_500 n1 ip0 s0 "''tok''" "Error ''ETIMEDOUT''" t_ping ?s1
      r500 "[(''error'', JStr ''unavailable'')]" "\<lambda>k. Error ''ETIMEDOUT''" "''tok''"]
  have a: "userfile w_down (reads s0) = Some ''tok'' \<and> net w_down (fetches s0) = Rejects (Error ''ETIMEDOUT'')"
    by (simp add: w_down_def)
  from D a have 1: "pingNode1 w_down n1 ip0 s0 = (Inl (Error ''ETIMEDOUT''), ?s1)"
    by (simp add: s0_def trim_tok n1_def ip0_def)
  then have b: "stage t_ping = InitialPing
      \<and> pingNode1 w_down (nodeId t_ping) (ipAddress t_ping) (st t_ping) = (Inl (Error ''ETIMEDOUT''), ?s1)"
    by (simp add: t_ping_def)
  from D b have 2: "processNode_step w_down t_ping = restart t_ping (Error ''ETIMEDOUT'') ?s1"
    by blast
  have c: "stage t_ping = InitialPing \<and> userfile w_500 (reads (st t_ping)) = Some ''tok''
        \<and> net w_500 (fetches (st t_ping)) = Resolves r500
        \<and> json r500 = Some (JObj [(''error'', JStr ''unavailable'')])"
    by (simp add: t_ping_def w_500_def r500_def)
  from F c have 3: "stage (processNode_step w_500 t_ping) = Heartbeating"
    by blast
  have d: "\<forall>k\<le>3. failure (net w_down (fetches s0 + k)) = Some (Error ''ETIMEDOUT'')"
    by (simp add: w_down_def)
  from D d have 4: "pingNode0 w_down n1 ''tok'' s0 =
          Some (Inl (Error ''ETIMEDOUT''),
                s0\<lparr>fetches := fetches s0 + 4,
                  trace := trace s0 @ retried (ping_rq n1 ''tok'') 1000 (map (\<lambda>k. Error ''ETIMEDOUT'') [0..<3])
                             @ [sent (ping_rq n1 ''tok'')]\<rparr>)"
    by blast
  show ?thesis
    unfolding 1 2 3 4 by (simp add: s0_def retried_def upt3)
qed

text \<open>
  Claim C4 as stated fails twice. On part\_000, with the service down, the initial ping is
  sent four times and three seconds are spent waiting before the error is raised. On
  part\_001, an initial ping answered with a 500 that carries a JSON object raises nothing:
  the timer is set and the node is heartbeating.
\<close>

theorem initial_ping_retried_or_status_ignored:
  "pingNode0 w_down n1 ''tok'' s0 =
      Some (Inl (Error ''ETIMEDOUT''),
        \<lparr>fetches = 4, reads = 0,
         trace = [sent (ping_rq n1 ''tok''), retry_line (ping_rq n1 ''tok'') (Error ''ETIMEDOUT''), Sleep 1000,
                  sent (ping_rq n1 ''tok''), retry_line (ping_rq n1 ''tok'') (Error ''ETIMEDOUT''), Sleep 1000,
                  sent (ping_rq n1 ''tok''), retry_line (ping_rq n1 ''tok'') (Error ''ETIMEDOUT''), Sleep 1000,
                  sent (ping_rq n1 ''tok'')]\<rparr>)
   \<and> ok r500 = False
   \<and> processNode_step w_500 t_ping =
     \<lparr>nodeId = n1, hardwareId = h1, ipAddress = ip0, stage = Heartbeating,
      st = \<lparr>fetches = 1, reads = 1,
            trace = [ReadFile ''user.txt'', ConsoleLog ''Pinging node n1 with IP: 10.0.0.7'',
                     Fetch (ping_rq n1 ''tok''),
                     ConsoleLog ''Ping response, NodeID: n1, Status: undefined, IP: 10.0.0.7'',
                     SetInterval (Heartbeat1 n1 ip0) 60000]\<rparr>\<rparr>"
  using pingNode0_down step_500 by (simp add: r500_def)

section \<open>A scheduled firing that fails\<close>

lemma runAll1_member:
  "(n, h) \<in> set (readNodeAndHardwareIds data) \<Longrightarrow> processNode_start n h ip \<in> set (runAll1 data ip)"
  by (force simp: runAll1_def)

text \<open>
  Claim C6, as amended. A scheduled firing that fails is not absorbed. In part\_001 the
  callback logs the error and throws it again; the rejection reaches the handler of
  uncaught exceptions, which logs it and calls \<^verbatim>\<open>runAll(false)\<close>: once the address has been
  asked for and given again, \<^verbatim>\<open>processNode\<close> is started for every entry of \<^verbatim>\<open>id.txt\<close>, the
  node of the failed firing among them if it is still listed. In part\_000 the callback is
  \<^verbatim>\<open>pingNode\<close> itself, which throws the last error after four failed attempts and logs
  only the retries; in bless.js it throws after its one attempt and logs nothing.
\<close>

theorem failed_firing_reaches_handler:
  "(pingNode1 w n ip (emit (ConsoleLog (''Sending ping for nodeId: '' @ to_string n)) s) = (Inl e, s1)
      \<longrightarrow> heartbeat1 w n ip s =
            (Inl e, emit (ConsoleError (''Error during ping: '' @ message e)) s1)
        \<and> timer_fires1 w idfile answers n ip s =
            uncaughtException w idfile answers e
              (emit (ConsoleError (''Error during ping: '' @ message e)) s1))
   \<and> (fetchIpAddress1 w answers (emit (ConsoleError (''Uncaught exception: '' @ message e)) s)
         = Some (Inr ip', rest, s2)
      \<longrightarrow> uncaughtException w (Some data) answers e s = Some (runAll1 data ip', s2)
        \<and> ((n, h) \<in> set (readNodeAndHardwareIds data)
             \<longrightarrow> processNode_start n h ip' \<in> set (runAll1 data ip')))
   \<and> ((\<forall>k\<le>3. failure (net w (fetches s + k)) = Some (errs k)) \<longrightarrow>
        pingNode0 w n tok s =
          Some (Inl (errs 3),
                s\<lparr>fetches := fetches s + 4,
                  trace := trace s @ retried (ping_rq n tok) 1000 (map errs [0..<3])
                             @ [sent (ping_rq n tok)]\<rparr>))
   \<and> (net w (fetches s) = Rejects e \<longrightarrow>
        pingNodeB w n tok s =
          (Inl e, s\<lparr>fetches := Suc (fetches s),
                    trace := trace s @ [Fetch (ping_rq n tok)]\<rparr>))"
proof (intro conjI impI)
  assume a: "pingNode1 w n ip (emit (ConsoleLog (''Sending ping for nodeId: '' @ to_string n)) s) = (Inl e, s1)"
  then show h: "heartbeat1 w n ip s =
            (Inl e, emit (ConsoleError (''Error during ping: '' @ message e)) s1)"
    by (simp add: heartbeat1_def)
  then show "timer_fires1 w idfile answers n ip s =
            uncaughtException w idfile answers e
              (emit (ConsoleError (''Error during ping: '' @ message e)) s1)"
    by (simp add: timer_fires1_def)
next
  assume "fetchIpAddress1 w answers (emit (ConsoleError (''Uncaught exception: '' @ message e)) s)
         = Some (Inr ip', rest, s2)"
  then show "uncaughtException w (Some data) answers e s = Some (runAll1 data ip', s2)"
    by (simp add: uncaughtException_def runAllFalse_def)
next
  assume "(n, h) \<in> set (readNodeAndHardwareIds data)"
  then show "processNode_start n h ip' \<in> set (runAll1 data ip')"
    by (rule runAll1_member)
next
  assume "\<forall>k\<le>3. failure (net w (fetches s + k)) = Some (errs k)"
  then show "pingNode0 w n tok s =
          Some (Inl (errs 3),
                s\<lparr>fetches := fetches s + 4,
                  trace := trace s @ retried (ping_rq n tok) 1000 (map errs [0..<3])
                             @ [sent (ping_rq n tok)]\<rparr>)"
    by (rule pingNode0_exhausts)
next
  assume "net w (fetches s) = Rejects e"
  then show "pingNodeB w n tok s =
          (Inl e, s\<lparr>fetches := Suc (fetches s),
                    trace := trace s @ [Fetch (ping_rq n tok)]\<rparr>)"
    by (simp add: pingNodeB_def fetch_def emit_def)
qed

lemma heartbeat1_down: "heartbeat1 w_down n1 ip0 s0 = (Inl (Error ''ETIMEDOUT''), s_fired)"
  by (simp add: heartbeat1_def pingNode1_def readAuthToken_def readUserFile_def
      fetch_def emit_def w_down_def s0_def s_fired_def trim_tok n1_def ip0_def)

lemma trim_3: "trim ''3'' = ''3''"
  by (simp add: trim_def is_space_def)

lemma ask_again:
  "fetchIpAddress1 w_down [''3''] (emit (ConsoleError (''Uncaught exception: '' @ message (Error ''ETIMEDOUT''))) s_fired)
     = Some (Inr local_ip, [], s_handled)"
  by (subst fetchIpAddress1.simps)
     (simp add: promptInput_def trim_3 emit_def s_fired_def s_handled_def local_ip_def
        getLocalIpAddress_def w_down_def)

lemma timer_fires1_down:
  "timer_fires1 w_down (Some two_nodes) [''3''] n1 ip0 s0 =
     Some ([processNode_start n1 h1 local_ip, processNode_start n2 h2 local_ip], s_handled)"
  using ask_again
  by (simp add: timer_fires1_def heartbeat1_down uncaughtException_def runAllFalse_def
      runAll1_def read_two)

theorem failed_firing_reaches_handler_witness:
  "heartbeat1 w_down n1 ip0 s0 = (Inl (Error ''ETIMEDOUT''), s_fired)
   \<and> timer_fires1 w_down (Some two_nodes) [''3''] n1 ip0 s0 = Some (runAll1 two_nodes local_ip, s_handled)
   \<and> processNode_start n1 h1 local_ip \<in> set (runAll1 two_nodes local_ip)
   \<and> pingNode0 w_down n1 ''tok'' s0 =
      Some (Inl (Error ''ETIMEDOUT''),
        \<lparr>fetches = 4, reads = 0,
         trace = [sent (ping_rq n1 ''tok''), retry_line (ping_rq n1 ''tok'') (Error ''ETIMEDOUT''), Sleep 1000,
                  sent (ping_rq n1 ''tok''), retry_line (ping_rq n1 ''tok'') (Error ''ETIMEDOUT''), Sleep 1000,
                  sent (ping_rq n1 ''tok''), retry_line (ping_rq n1 ''tok'') (Error ''ETIMEDOUT''), Sleep 1000,
                  sent (ping_rq n1 ''tok'')]\<rparr>)
   \<and> pingNodeB w_down n1 ''tok'' s0 =
      (Inl (Error ''ETIMEDOUT''), \<lparr>fetches = 1, reads = 0, trace = [Fetch (ping_rq n1 ''tok'')]\<rparr>)"
proof -
  let ?e = "Error ''ETIMEDOUT''"
  let ?s1 = "\<lparr>fetches = 1, reads = 1,
       trace = [ConsoleLog ''Sending ping for nodeId: n1'', ReadFile ''user.txt'',
                ConsoleLog ''Pinging node n1 with IP: 10.0.0.7'', Fetch (ping_rq n1 ''tok'')]\<rparr>"
  have fired: "emit (ConsoleError (''Error during ping: '' @ message ?e)) ?s1 = s_fired"
    by (simp add: emit_def s_fired_def)
  have a: "pingNode1 w_down n1 ip0 (emit (ConsoleLog (''Sending ping for nodeId: '' @ to_string n1)) s0)
      = (Inl ?e, ?s1)"
    by (simp add: pingNode1_def readAuthToken_def readUserFile_def
      fetch_def emit_def w_down_def s0_def trim_tok n1_def ip0_def)
  note T1 = failed_firing_reaches_handler[of w_down n1 ip0 s0 ?e ?s1 "Some two_nodes" "[''3'']"
      local_ip "[]" s_handled two_nodes h1 "\<lambda>k. ?e" "''tok''"]
  note T2 = failed_firing_reaches_handler[of w_down n1 ip0 s_fired ?e ?s1 "Some two_nodes" "[''3'']"
      local_ip "[]" s_handled two_nodes h1 "\<lambda>k. ?e" "''tok''"]
  from T1 a have 1: "heartbeat1 w_down n1 ip0 s0 = (Inl ?e, s_fired)"
    and 2: "timer_fires1 w_down (Some two_nodes) [''3''] n1 ip0 s0 =
        uncaughtException w_down (Some two_nodes) [''3''] ?e s_fired"
    unfolding fired by blast+
  from T2 ask_again have 3: "uncaughtException w_down (Some two_nodes) [''3''] ?e s_fired
        = Some (runAll1 two_nodes local_ip, s_handled)"
    by blast
  have m: "(n1, h1) \<in> set (readNodeAndHardwareIds two_nodes)"
    by (simp add: read_two)
  from T2 ask_again m have 4: "processNode_start n1 h1 local_ip \<in> set (runAll1 two_nodes local_ip)"
    by blast
  have d: "\<forall>k\<le>3. failure (net w_down (fetches s0 + k)) = Some ?e"
    by (simp add: w_down_def)
  from T1 d have 5: "pingNode0 w_down n1 ''tok'' s0 =
          Some (Inl ?e,
                s0\<lparr>fetches := fetches s0 + 4,
                  trace := trace s0 @ retried (ping_rq n1 ''tok'') 1000 (map (\<lambda>k. ?e) [0..<3])
                             @ [sent (ping_rq n1 ''tok'')]\<rparr>)"
    by blast
  have r: "net w_down (fetches s0) = Rejects ?e" by (simp add: w_down_def)
  from T1 r have 6: "pingNodeB w_down n1 ''tok'' s0 =
          (Inl ?e, s0\<lparr>fetches := Suc (fetches s0), trace := trace s0 @ [Fetch (ping_rq n1 ''tok'')]\<rparr>)"
    by blast
  show ?thesis
    unfolding 1 2 3 5 6 using 4 by (simp add: s0_def retried_def upt3)
qed

text \<open>
  Claim C6 as stated fails on part\_001: with the service down, a firing for node \<open>n1\<close>
  logs the error, the error comes up again as an uncaught exception, and after the answer
  \<^verbatim>\<open>3\<close> to the question for the address a new lifecycle is started for \<open>n1\<close> and for
  \<open>n2\<close>.
\<close>

theorem part001_failed_firing_restarts_all:
  "timer_fires1 w_down (Some two_nodes) [''3''] n1 ip0 s0 =
     Some ([processNode_start n1 h1 local_ip, processNode_start n2 h2 local_ip],
       \<lparr>fetches = 1, reads = 1,
        trace = [ConsoleLog ''Sending ping for nodeId: n1'', ReadFile ''user.txt'',
                 ConsoleLog ''Pinging node n1 with IP: 10.0.0.7'', Fetch (ping_rq n1 ''tok''),
                 ConsoleError ''Error during ping: ETIMEDOUT'',
                 ConsoleError ''Uncaught exception: ETIMEDOUT'',
                 Prompt option_prompt,
                 ConsoleLogData ''Local network IP:'' local_ip]\<rparr>)"
  by (simp only: timer_fires1_down, simp add: s_handled_def s_fired_def)

section \<open>Starting the lifecycles: at once, or one after the other\<close>









end
